theory Spec2Isabelle
  imports Complex_Main
begin

section \<open>The address enrichment pipeline of GeoFull\<close>

text \<open>
  A shallow embedding of \<^verbatim>\<open>app/models.py\<close>, \<^verbatim>\<open>app/schemas.py\<close>, \<^verbatim>\<open>app/crud.py\<close> and
  \<^verbatim>\<open>app/processing.py\<close>. The record store is a finite map from ids to rows. The two remote
  services are not functions of the program: every run receives their outcome (a returned
  value or a raised exception) as an argument. Python values that come out of a JSON
  document are dynamically typed, so they are a datatype of their own and every operation
  the source applies to them is written out with the exception Python raises on the wrong
  type.
\<close>

subsection \<open>Python values, exceptions and results\<close>

text \<open>
  A Python \<^verbatim>\<open>float\<close> is a finite number, an infinity or a NaN. No claim depends on the
  rounding of a finite float, so the finite ones are read as the reals they denote.
\<close>

datatype pyfloat = Finite real | PosInf | NegInf | NaN

text \<open>What \<^verbatim>\<open>json.loads\<close> and \<^verbatim>\<open>response.json()\<close> can return. A \<^verbatim>\<open>dict\<close> is an
  association list, read with \<open>map_of\<close>.\<close>

datatype pyval =
    PNone
  | PBool bool
  | PInt int
  | PFloat pyfloat
  | PStr string
  | PList "pyval list"
  | PDict "(string \<times> pyval) list"

text \<open>
  The exceptions the modelled code can meet. \<open>Timeout\<close>, \<open>ConnectionError\<close>, \<open>HTTPError\<close>
  and \<open>RequestsJSONDecodeError\<close> are the subclasses of
  \<^verbatim>\<open>requests.exceptions.RequestException\<close>; \<open>KeyboardInterrupt\<close> and \<open>SystemExit\<close> derive
  from \<^verbatim>\<open>BaseException\<close> only, everything else from \<^verbatim>\<open>Exception\<close>.
\<close>

datatype py_exn =
    Timeout | ConnectionError | HTTPError | RequestsJSONDecodeError
  | TypeError | ValueError | KeyError | IndexError | AttributeError | OverflowError
  | ValidationError | IntegrityError | DataError | InvalidRequestError
  | ServiceError | KeyboardInterrupt | SystemExit

fun is_RequestException :: "py_exn \<Rightarrow> bool" where
  "is_RequestException Timeout = True"
| "is_RequestException ConnectionError = True"
| "is_RequestException HTTPError = True"
| "is_RequestException RequestsJSONDecodeError = True"
| "is_RequestException _ = False"

fun is_Exception :: "py_exn \<Rightarrow> bool" where
  "is_Exception KeyboardInterrupt = False"
| "is_Exception SystemExit = False"
| "is_Exception _ = True"

datatype 'a result = Returns 'a | Raises py_exn

definition bind :: "'a result \<Rightarrow> ('a \<Rightarrow> 'b result) \<Rightarrow> 'b result" where
  "bind r f = (case r of Raises e \<Rightarrow> Raises e | Returns x \<Rightarrow> f x)"

text \<open>Truth value testing, as \<^verbatim>\<open>if x:\<close> and \<^verbatim>\<open>filter(None, ...)\<close> do it.\<close>

fun float_truthy :: "pyfloat \<Rightarrow> bool" where
  "float_truthy (Finite r) = (r \<noteq> 0)"
| "float_truthy _ = True"

fun truthy :: "pyval \<Rightarrow> bool" where
  "truthy PNone = False"
| "truthy (PBool b) = b"
| "truthy (PInt n) = (n \<noteq> 0)"
| "truthy (PFloat f) = float_truthy f"
| "truthy (PStr s) = (s \<noteq> [])"
| "truthy (PList xs) = (xs \<noteq> [])"
| "truthy (PDict kvs) = (kvs \<noteq> [])"

text \<open>\<^verbatim>\<open>x.get(key)\<close> and \<^verbatim>\<open>x.get(key, default)\<close>: only a \<^verbatim>\<open>dict\<close> has the method.\<close>

fun py_get_default :: "pyval \<Rightarrow> string \<Rightarrow> pyval \<Rightarrow> pyval result" where
  "py_get_default (PDict kvs) k d = Returns (case map_of kvs k of None \<Rightarrow> d | Some v \<Rightarrow> v)"
| "py_get_default _ k d = Raises AttributeError"

definition py_get :: "pyval \<Rightarrow> string \<Rightarrow> pyval result" where
  "py_get x k = py_get_default x k PNone"

text \<open>\<^verbatim>\<open>data[0]\<close>. The keys of a JSON object are strings, so \<^verbatim>\<open>0\<close> is never among them.\<close>

fun py_getitem0 :: "pyval \<Rightarrow> pyval result" where
  "py_getitem0 (PList []) = Raises IndexError"
| "py_getitem0 (PList (x # xs)) = Returns x"
| "py_getitem0 (PStr []) = Raises IndexError"
| "py_getitem0 (PStr (c # cs)) = Returns (PStr [c])"
| "py_getitem0 (PDict kvs) = Raises KeyError"
| "py_getitem0 _ = Raises TypeError"

text \<open>
  Library functions whose results are not computed here: the JSON parser (\<open>None\<close> where
  \<^verbatim>\<open>json.loads\<close> raises) and the conversions of \<^verbatim>\<open>float\<close> (\<open>None\<close> where it raises
  \<^verbatim>\<open>ValueError\<close> on a string, \<^verbatim>\<open>OverflowError\<close> on an integer).
\<close>

record pylib =
  json_loads :: "string \<Rightarrow> pyval option"
  float_of_str :: "string \<Rightarrow> pyfloat option"
  float_of_int :: "int \<Rightarrow> pyfloat option"

fun py_float :: "pylib \<Rightarrow> pyval \<Rightarrow> pyfloat result" where
  "py_float lib (PFloat f) = Returns f"
| "py_float lib (PInt n) =
     (case float_of_int lib n of None \<Rightarrow> Raises OverflowError | Some f \<Rightarrow> Returns f)"
| "py_float lib (PBool b) =
     (case float_of_int lib (if b then 1 else 0) of
        None \<Rightarrow> Raises OverflowError | Some f \<Rightarrow> Returns f)"
| "py_float lib (PStr s) =
     (case float_of_str lib s of None \<Rightarrow> Raises ValueError | Some f \<Rightarrow> Returns f)"
| "py_float lib _ = Raises TypeError"

subsection \<open>Strings\<close>

text \<open>
  Strings are sequences of characters with code points below 256. \<open>is_space\<close> is
  \<^verbatim>\<open>str.isspace\<close> on that range.
\<close>

definition is_space :: "char \<Rightarrow> bool" where
  "is_space c = (of_char c \<in> {9, 10, 11, 12, 13, 28, 29, 30, 31, 32, 133, 160 :: nat})"

definition strip :: "string \<Rightarrow> string" where
  "strip s = rev (dropWhile is_space (rev (dropWhile is_space s)))"

text \<open>\<^verbatim>\<open>s.replace(old, new)\<close>: every non-overlapping occurrence, scanning from the left.\<close>

function replace :: "string \<Rightarrow> string \<Rightarrow> string \<Rightarrow> string" where
  "replace s old new =
     (if old = [] then new @ concat (map (\<lambda>c. c # new) s)
      else if s = [] then []
      else if take (length old) s = old then new @ replace (drop (length old) s) old new
      else hd s # replace (tl s) old new)"
  by pat_completeness auto
termination
  by (relation "measure (\<lambda>(s, old, new). length s)") auto

declare replace.simps [simp del]

text \<open>\<^verbatim>\<open>sep.join(items)\<close> raises \<^verbatim>\<open>TypeError\<close> on an item that is not a string.\<close>

fun str_items :: "pyval list \<Rightarrow> string list result" where
  "str_items [] = Returns []"
| "str_items (PStr s # xs) = bind (str_items xs) (\<lambda>ss. Returns (s # ss))"
| "str_items (_ # xs) = Raises TypeError"

fun intercalate :: "string \<Rightarrow> string list \<Rightarrow> string" where
  "intercalate sep [] = []"
| "intercalate sep [s] = s"
| "intercalate sep (s # t # ss) = s @ sep @ intercalate sep (t # ss)"

definition join :: "string \<Rightarrow> pyval list \<Rightarrow> string result" where
  "join sep items = bind (str_items items) (\<lambda>ss. Returns (intercalate sep ss))"

subsection \<open>models.py and schemas.py\<close>

datatype AddressStatus = PENDING | NORMALIZED | VERIFIED

type_synonym uuid = nat

text \<open>
  A row of the table \<^verbatim>\<open>addresses\<close>. The primary key is the key of the store;
  \<^verbatim>\<open>created_at\<close> and \<^verbatim>\<open>updated_at\<close> are kept by the database clock and are left out.
\<close>

record address =
  original_address :: string
  normalized_address :: "string option"
  suggested_address :: "string option"
  street_info :: "string option"
  neighborhood :: "string option"
  apartment_info :: "string option"
  notes' :: "string option"
  latitude :: "pyfloat option"
  longitude :: "pyfloat option"
  postal_code :: "string option"
  status :: AddressStatus

text \<open>
  \<^verbatim>\<open>AddressUpdate.model_dump(exclude_unset=True)\<close> is the list of the fields that were
  given to the constructor, each with its value, in the order of the schema.
\<close>

datatype assignment =
    Set_original_address "string option"
  | Set_normalized_address "string option"
  | Set_suggested_address "string option"
  | Set_street_info "string option"
  | Set_neighborhood "string option"
  | Set_apartment_info "string option"
  | Set_notes "string option"
  | Set_latitude "pyfloat option"
  | Set_longitude "pyfloat option"
  | Set_postal_code "string option"
  | Set_status "AddressStatus option"

text \<open>Validation of a field declared \<^verbatim>\<open>str | None\<close>: a string or \<^verbatim>\<open>None\<close>, nothing else.\<close>

fun validate_str :: "pyval \<Rightarrow> string option result" where
  "validate_str PNone = Returns None"
| "validate_str (PStr s) = Returns (Some s)"
| "validate_str _ = Raises ValidationError"

subsection \<open>crud.py\<close>

type_synonym db = "uuid \<rightharpoonup> address"

datatype event =
    Extractor_called string
  | Committed uuid "assignment list"
  | Geocoder_called "string option"

definition get_address :: "db \<Rightarrow> uuid \<Rightarrow> address option" where
  "get_address db address_id = db address_id"

text \<open>
  The default \<^verbatim>\<open>uuid.uuid4\<close> of the primary key is an argument. The store is the
  PostgreSQL database of \<^verbatim>\<open>database.py\<close>: its driver raises \<^verbatim>\<open>ValueError\<close> on a string
  that contains the character NUL, before anything reaches the server.
\<close>

definition create_address :: "db \<Rightarrow> uuid \<Rightarrow> string \<Rightarrow> db result" where
  "create_address db new_id original =
     (if CHR 0x00 \<in> set original then Raises ValueError
      else if new_id \<in> dom db then Raises IntegrityError
      else Returns (db(new_id \<mapsto>
        \<lparr>original_address = original, normalized_address = None, suggested_address = None,
         street_info = None, neighborhood = None, apartment_info = None, notes' = None,
         latitude = None, longitude = None, postal_code = None, status = PENDING\<rparr>)))"

fun setattr :: "address \<Rightarrow> assignment \<Rightarrow> address" where
  "setattr a (Set_original_address v) = (case v of None \<Rightarrow> a | Some s \<Rightarrow> a\<lparr>original_address := s\<rparr>)"
| "setattr a (Set_normalized_address v) = a\<lparr>normalized_address := v\<rparr>"
| "setattr a (Set_suggested_address v) = a\<lparr>suggested_address := v\<rparr>"
| "setattr a (Set_street_info v) = a\<lparr>street_info := v\<rparr>"
| "setattr a (Set_neighborhood v) = a\<lparr>neighborhood := v\<rparr>"
| "setattr a (Set_apartment_info v) = a\<lparr>apartment_info := v\<rparr>"
| "setattr a (Set_notes v) = a\<lparr>notes' := v\<rparr>"
| "setattr a (Set_latitude v) = a\<lparr>latitude := v\<rparr>"
| "setattr a (Set_longitude v) = a\<lparr>longitude := v\<rparr>"
| "setattr a (Set_postal_code v) = a\<lparr>postal_code := v\<rparr>"
| "setattr a (Set_status v) = (case v of None \<Rightarrow> a | Some s \<Rightarrow> a\<lparr>status := s\<rparr>)"

text \<open>
  What \<^verbatim>\<open>db.commit()\<close> refuses, in the order in which the refusals arise: a string
  with the character NUL in a text column (\<^verbatim>\<open>ValueError\<close> of the driver), more than ten
  characters in \<^verbatim>\<open>String(10)\<close> unless the characters in excess are all spaces
  (\<^verbatim>\<open>DataError\<close>), and \<^verbatim>\<open>None\<close> in a column declared \<^verbatim>\<open>nullable=False\<close>
  (\<^verbatim>\<open>IntegrityError\<close>).
\<close>

fun text_value :: "assignment \<Rightarrow> string option" where
  "text_value (Set_original_address v) = v"
| "text_value (Set_normalized_address v) = v"
| "text_value (Set_suggested_address v) = v"
| "text_value (Set_street_info v) = v"
| "text_value (Set_neighborhood v) = v"
| "text_value (Set_apartment_info v) = v"
| "text_value (Set_notes v) = v"
| "text_value (Set_postal_code v) = v"
| "text_value (Set_latitude v) = None"
| "text_value (Set_longitude v) = None"
| "text_value (Set_status v) = None"

definition has_nul :: "assignment \<Rightarrow> bool" where
  "has_nul u = (case text_value u of None \<Rightarrow> False | Some s \<Rightarrow> CHR 0x00 \<in> set s)"

fun too_long :: "assignment \<Rightarrow> bool" where
  "too_long (Set_postal_code (Some s)) = list_ex (\<lambda>c. c \<noteq> CHR '' '') (drop 10 s)"
| "too_long _ = False"

fun null_refused :: "assignment \<Rightarrow> bool" where
  "null_refused (Set_original_address None) = True"
| "null_refused (Set_status None) = True"
| "null_refused _ = False"

definition commit_error :: "assignment list \<Rightarrow> py_exn option" where
  "commit_error update_data =
     (if list_ex has_nul update_data then Some ValueError
      else if list_ex too_long update_data then Some DataError
      else if list_ex null_refused update_data then Some IntegrityError
      else None)"

text \<open>
  What a column keeps of an assigned value: \<^verbatim>\<open>String(10)\<close> keeps the first ten
  characters, the others keep the value.
\<close>

fun column_value :: "assignment \<Rightarrow> assignment" where
  "column_value (Set_postal_code v) = Set_postal_code (map_option (take 10) v)"
| "column_value (Set_original_address v) = Set_original_address v"
| "column_value (Set_normalized_address v) = Set_normalized_address v"
| "column_value (Set_suggested_address v) = Set_suggested_address v"
| "column_value (Set_street_info v) = Set_street_info v"
| "column_value (Set_neighborhood v) = Set_neighborhood v"
| "column_value (Set_apartment_info v) = Set_apartment_info v"
| "column_value (Set_notes v) = Set_notes v"
| "column_value (Set_latitude v) = Set_latitude v"
| "column_value (Set_longitude v) = Set_longitude v"
| "column_value (Set_status v) = Set_status v"

text \<open>
  Lines 38 to 52. The event of the commit holds the values as the columns keep them,
  which are the values of the refreshed object.
\<close>

definition update_address ::
  "db \<Rightarrow> uuid \<Rightarrow> assignment list \<Rightarrow> address option result \<times> db \<times> event list" where
  "update_address db address_id update_data =
     (case get_address db address_id of
        None \<Rightarrow> (Returns None, db, [])
      | Some db_address \<Rightarrow>
          (case commit_error update_data of
             Some e \<Rightarrow> (Raises e, db, [])
           | None \<Rightarrow>
               (let stored = map column_value update_data;
                    row = foldl setattr db_address stored
                in (Returns (Some row), db(address_id \<mapsto> row),
                    [Committed address_id stored]))))"

subsection \<open>processing.py\<close>

text \<open>
  What the remote services do during one run: \<open>get_model\<close> is the truth value of
  \<^verbatim>\<open>genai.get_model(...)\<close>, \<open>generate_content\<close> is \<^verbatim>\<open>model.generate_content(prompt)\<close>
  followed by \<^verbatim>\<open>response.text\<close>, and \<open>http_get\<close> is \<^verbatim>\<open>requests.get(...)\<close> followed
  by \<^verbatim>\<open>raise_for_status()\<close> and \<^verbatim>\<open>response.json()\<close>. Each one returns or raises.
\<close>

record services =
  get_model :: "bool result"
  generate_content :: "string result"
  http_get :: "pyval result"

text \<open>Line 99: the text of the answer without its code fence.\<close>

definition cleaned_response :: "string \<Rightarrow> string" where
  "cleaned_response text = strip (replace (replace (strip text) ''```json'' []) ''```'' [])"

text \<open>Lines 22 to 104. The call of \<^verbatim>\<open>get_model\<close> stands before the \<^verbatim>\<open>try\<close>.\<close>

definition parse_address_with_ai :: "pylib \<Rightarrow> services \<Rightarrow> string \<Rightarrow> pyval result" where
  "parse_address_with_ai lib env address =
     (case get_model env of
        Raises e \<Rightarrow> Raises e
      | Returns available \<Rightarrow>
          if \<not> available then Returns PNone
          else
            (case generate_content env of
               Raises e \<Rightarrow> if is_Exception e then Returns PNone else Raises e
             | Returns text \<Rightarrow>
                 (case json_loads lib (cleaned_response text) of
                    None \<Rightarrow> Returns PNone
                  | Some parsed_json \<Rightarrow> Returns parsed_json)))"

text \<open>The dictionary that \<^verbatim>\<open>geocode_address\<close> returns.\<close>

record geocoded =
  geo_latitude :: pyfloat
  geo_longitude :: pyfloat
  geo_suggested_address :: pyval
  geo_postal_code :: pyval

definition except_RequestException :: "'a option result \<Rightarrow> 'a option result" where
  "except_RequestException r =
     (case r of
        Raises e \<Rightarrow> if is_RequestException e then Returns None else Raises e
      | Returns x \<Rightarrow> Returns x)"

text \<open>Lines 107 to 130. The argument is a string or \<^verbatim>\<open>None\<close>, as the column is.\<close>

definition geocode_address ::
  "pylib \<Rightarrow> services \<Rightarrow> string option \<Rightarrow> geocoded option result" where
  "geocode_address lib env address =
     (if address = None \<or> address = Some [] then Returns None
      else except_RequestException
        (bind (http_get env) (\<lambda>data.
           if \<not> truthy data then Returns None
           else
             bind (py_getitem0 data) (\<lambda>result.
             bind (py_get result ''lat'') (\<lambda>lat.
             bind (py_float lib lat) (\<lambda>la.
             bind (py_get result ''lon'') (\<lambda>lon.
             bind (py_float lib lon) (\<lambda>lo.
             bind (py_get result ''display_name'') (\<lambda>display_name.
             bind (py_get_default result ''address'' (PDict [])) (\<lambda>addr.
             bind (py_get addr ''postcode'') (\<lambda>postcode.
               Returns (Some \<lparr>geo_latitude = la, geo_longitude = lo,
                               geo_suggested_address = display_name,
                               geo_postal_code = postcode\<rparr>))))))))))))"

text \<open>Lines 150 to 165: the normalized string and the validated \<^verbatim>\<open>AddressUpdate\<close>.\<close>

definition extraction_update :: "pyval \<Rightarrow> assignment list result" where
  "extraction_update parsed_data =
     bind (py_get parsed_data ''street_info'') (\<lambda>street.
     bind (py_get parsed_data ''neighborhood'') (\<lambda>neigh.
     bind (join '', '' (filter truthy [street, neigh, PStr ''Medellin'', PStr ''Colombia'']))
       (\<lambda>normalized_str.
     bind (py_get parsed_data ''apartment_info'') (\<lambda>apartment.
     bind (py_get parsed_data ''notes'') (\<lambda>nts.
     bind (validate_str street) (\<lambda>v_street.
     bind (validate_str neigh) (\<lambda>v_neigh.
     bind (validate_str apartment) (\<lambda>v_apartment.
     bind (validate_str nts) (\<lambda>v_notes.
       Returns [Set_normalized_address (Some normalized_str), Set_street_info v_street,
                Set_neighborhood v_neigh, Set_apartment_info v_apartment,
                Set_notes v_notes, Set_status (Some NORMALIZED)])))))))))"

text \<open>Lines 178 to 184.\<close>

definition geocoding_update :: "geocoded \<Rightarrow> assignment list result" where
  "geocoding_update geocoded_data =
     bind (validate_str (geo_suggested_address geocoded_data)) (\<lambda>v_suggested.
     bind (validate_str (geo_postal_code geocoded_data)) (\<lambda>v_postal.
       Returns [Set_suggested_address v_suggested,
                Set_latitude (Some (geo_latitude geocoded_data)),
                Set_longitude (Some (geo_longitude geocoded_data)),
                Set_postal_code v_postal, Set_status (Some VERIFIED)]))"

text \<open>
  Lines 173 to 188, the second step of the run. \<open>db_address\<close> is the refreshed object and
  \<open>evs\<close> the events of the run so far. A dictionary returned by the geocoder has four
  keys, so the test \<^verbatim>\<open>if geocoded_data\<close> fails for \<^verbatim>\<open>None\<close> only.
\<close>

definition pipeline_geocoding ::
  "pylib \<Rightarrow> services \<Rightarrow> db \<Rightarrow> uuid \<Rightarrow> address \<Rightarrow> event list
     \<Rightarrow> unit result \<times> db \<times> event list" where
  "pipeline_geocoding lib env db address_id db_address evs =
     (let address_to_geocode = normalized_address db_address;
          evs1 = evs @ [Geocoder_called address_to_geocode]
      in case geocode_address lib env address_to_geocode of
           Raises e \<Rightarrow> (Raises e, db, evs1)
         | Returns None \<Rightarrow> (Returns (), db, evs1)
         | Returns (Some geocoded_data) \<Rightarrow>
             (case geocoding_update geocoded_data of
                Raises e \<Rightarrow> (Raises e, db, evs1)
              | Returns update_geo \<Rightarrow>
                  (case update_address db address_id update_geo of
                     (Raises e, db2, evs2) \<Rightarrow> (Raises e, db2, evs1 @ evs2)
                   | (Returns _, db2, evs2) \<Rightarrow> (Returns (), db2, evs1 @ evs2))))"

text \<open>
  Lines 133 to 192. The result is what the caller sees (a return or an exception), the
  store after the run and the events of the run in order.
\<close>

definition run_processing_pipeline ::
  "pylib \<Rightarrow> services \<Rightarrow> db \<Rightarrow> uuid \<Rightarrow> unit result \<times> db \<times> event list" where
  "run_processing_pipeline lib env db address_id =
     (case get_address db address_id of
        None \<Rightarrow> (Returns (), db, [])
      | Some db_address \<Rightarrow>
          (let evs = [Extractor_called (original_address db_address)]
           in case parse_address_with_ai lib env (original_address db_address) of
                Raises e \<Rightarrow> (Raises e, db, evs)
              | Returns parsed_data \<Rightarrow>
                  if truthy parsed_data then
                    (case extraction_update parsed_data of
                       Raises e \<Rightarrow> (Raises e, db, evs)
                     | Returns update_data \<Rightarrow>
                         (case update_address db address_id update_data of
                            (Raises e, db1, evs1) \<Rightarrow> (Raises e, db1, evs @ evs1)
                          | (Returns _, db1, evs1) \<Rightarrow>
                              (case get_address db1 address_id of
                                 None \<Rightarrow> (Raises InvalidRequestError, db1, evs @ evs1)
                               | Some refreshed \<Rightarrow>
                                   pipeline_geocoding lib env db1 address_id refreshed
                                     (evs @ evs1))))
                  else (Returns (), db, evs)))"

subsection \<open>Notions used to state the properties\<close>



text \<open>
  The normalized address in the words of the specification: the elements of
  \<^verbatim>\<open>[street_info, neighborhood, "Medellin", "Colombia"]\<close> that are not null, joined
  with a comma and a space.
\<close>

definition normalized_by_spec :: "string option \<Rightarrow> string option \<Rightarrow> string" where
  "normalized_by_spec street neigh =
     intercalate '', ''
       (List.map_filter id [street, neigh, Some ''Medellin'', Some ''Colombia''])"

text \<open>The elements that are neither null nor the empty string.\<close>

definition normalized_parts :: "string option \<Rightarrow> string option \<Rightarrow> string list" where
  "normalized_parts street neigh =
     filter (\<lambda>s. s \<noteq> [])
       (List.map_filter id [street, neigh, Some ''Medellin'', Some ''Colombia''])"

text \<open>
  A history of the store: addresses are created and runs are started, one after the
  other. A run that raises leaves the store as it stands at that moment.
\<close>

datatype operation = Create uuid string | Run uuid services

fun execute :: "pylib \<Rightarrow> db \<Rightarrow> operation list \<Rightarrow> db" where
  "execute lib db [] = db"
| "execute lib db (Create new_id original # ops) =
     execute lib
       (case create_address db new_id original of Returns db' \<Rightarrow> db' | Raises e \<Rightarrow> db) ops"
| "execute lib db (Run address_id env # ops) =
     execute lib (fst (snd (run_processing_pipeline lib env db address_id))) ops"

text \<open>The position of a status on the line \<open>PENDING\<close>, \<open>NORMALIZED\<close>, \<open>VERIFIED\<close>.\<close>

fun status_rank :: "AddressStatus \<Rightarrow> nat" where
  "status_rank PENDING = 0"
| "status_rank NORMALIZED = 1"
| "status_rank VERIFIED = 2"

text \<open>Both coordinates or none, and both when the status is \<open>VERIFIED\<close>.\<close>

definition coordinates_ok :: "address \<Rightarrow> bool" where
  "coordinates_ok a =
     ((latitude a = None \<longleftrightarrow> longitude a = None) \<and>
      (status a = VERIFIED \<longrightarrow> latitude a \<noteq> None \<and> longitude a \<noteq> None))"

text \<open>
  The store that a sequence of events leaves behind: each commit applies its
  assignments to the row it names, the calls of the services change nothing.
\<close>

fun replay :: "db \<Rightarrow> event list \<Rightarrow> db" where
  "replay db [] = db"
| "replay db (Committed i upd # evs) =
     replay (case db i of None \<Rightarrow> db | Some a \<Rightarrow> db(i \<mapsto> foldl setattr a upd)) evs"
| "replay db (Extractor_called s # evs) = replay db evs"
| "replay db (Geocoder_called q # evs) = replay db evs"

subsection \<open>Example inputs\<close>

text \<open>A stored address that no run has touched yet, as \<^verbatim>\<open>create_address\<close> leaves it.\<close>

definition pending_row :: address where
  "pending_row =
     \<lparr>original_address = ''av. carrera 44B calle 13-16'', normalized_address = None,
      suggested_address = None, street_info = None, neighborhood = None,
      apartment_info = None, notes' = None, latitude = None, longitude = None,
      postal_code = None, status = PENDING\<rparr>"

definition example_db :: db where
  "example_db = Map.empty(7 \<mapsto> pending_row)"

text \<open>
  An answer of the extraction service: a JSON document, sent inside a code fence with a
  line break on either side, and its parsed value.
\<close>

definition street_only_document :: string where
  \<open>street_only_document =
     ''{"street_info": "Carrera 44B # 13-16", "neighborhood": null, "apartment_info": null, "notes": null}''\<close>

definition street_only_text :: string where
  "street_only_text =
     ''```json'' @ (CHR 0x0A # street_only_document @ [CHR 0x0A]) @ ''```''"

definition street_only :: pyval where
  "street_only =
     PDict [(''street_info'', PStr ''Carrera 44B # 13-16''), (''neighborhood'', PNone),
            (''apartment_info'', PNone), (''notes'', PNone)]"

text \<open>Two more answers: every field null, and an empty string for the street.\<close>

definition all_null_text :: string where
  \<open>all_null_text =
     ''{"street_info": null, "neighborhood": null, "apartment_info": null, "notes": null}''\<close>

definition all_null :: pyval where
  "all_null =
     PDict [(''street_info'', PNone), (''neighborhood'', PNone),
            (''apartment_info'', PNone), (''notes'', PNone)]"

definition empty_street_text :: string where
  \<open>empty_street_text =
     ''{"street_info": "", "neighborhood": "Laureles", "apartment_info": null, "notes": null}''\<close>

definition empty_street :: pyval where
  "empty_street =
     PDict [(''street_info'', PStr []), (''neighborhood'', PStr ''Laureles''),
            (''apartment_info'', PNone), (''notes'', PNone)]"

text \<open>An answer with one field only.\<close>

definition one_field_text :: string where
  \<open>one_field_text = ''{"street_info": "Calle 10"}''\<close>

definition one_field :: pyval where
  "one_field = PDict [(''street_info'', PStr ''Calle 10'')]"

text \<open>
  Two answers that the run takes for a success and cannot store: a number for the street,
  and a street that ends in the JSON escape of the character NUL (a backslash, the letter
  \<open>u\<close> and four zeros), which the parser reads as that character.
\<close>

definition number_street_text :: string where
  \<open>number_street_text =
     ''{"street_info": 5, "neighborhood": null, "apartment_info": null, "notes": null}''\<close>

definition number_street :: pyval where
  "number_street =
     PDict [(''street_info'', PInt 5), (''neighborhood'', PNone),
            (''apartment_info'', PNone), (''notes'', PNone)]"

definition nul_street_text :: string where
  \<open>nul_street_text =
     ''{"street_info": "Calle 10'' @ [CHR 0x5C] @
     ''u0000", "neighborhood": null, "apartment_info": null, "notes": null}''\<close>

definition nul_street :: pyval where
  "nul_street =
     PDict [(''street_info'', PStr (''Calle 10'' @ [CHR 0x00])), (''neighborhood'', PNone),
            (''apartment_info'', PNone), (''notes'', PNone)]"

text \<open>
  A library that parses the documents above, reads the two coordinates below and
  converts every integer.
\<close>

definition example_lib :: pylib where
  \<open>example_lib = \<lparr>
     json_loads = map_of
       [(street_only_document, street_only),
        (all_null_text, all_null),
        (empty_street_text, empty_street),
        (one_field_text, one_field),
        (number_street_text, number_street),
        (nul_street_text, nul_street)],
     float_of_str = map_of
       [(''6.2443382'', Finite 6.2443382), (''-75.573553'', Finite (- 75.573553))],
     float_of_int = (\<lambda>n. Some (Finite (of_int n)))\<rparr>\<close>

text \<open>A run in which the extraction call times out.\<close>

definition extractor_down :: services where
  "extractor_down =
     \<lparr>get_model = Returns True, generate_content = Raises Timeout,
      http_get = Returns (PList [])\<rparr>"

text \<open>What the first update of a run stores for that answer.\<close>

definition street_only_update :: "assignment list" where
  "street_only_update =
     [Set_normalized_address (Some ''Carrera 44B # 13-16, Medellin, Colombia''),
      Set_street_info (Some ''Carrera 44B # 13-16''), Set_neighborhood None,
      Set_apartment_info None, Set_notes None, Set_status (Some NORMALIZED)]"

definition normalized_row :: address where
  "normalized_row =
     pending_row\<lparr>normalized_address := Some ''Carrera 44B # 13-16, Medellin, Colombia'',
       street_info := Some ''Carrera 44B # 13-16'', status := NORMALIZED\<rparr>"

text \<open>A run in which the extraction succeeds and the geocoder finds no match.\<close>

definition no_match :: services where
  "no_match =
     \<lparr>get_model = Returns True, generate_content = Returns street_only_text,
      http_get = Returns (PList [])\<rparr>"

text \<open>A match of the geocoding service and a run in which it is found.\<close>

definition medellin_match :: pyval where
  "medellin_match =
     PDict [(''lat'', PStr ''6.2443382''), (''lon'', PStr ''-75.573553''),
            (''display_name'', PStr ''Medellin, Antioquia, Colombia''),
            (''address'', PDict [(''postcode'', PStr ''050021'')])]"

definition all_null_found :: services where
  "all_null_found =
     \<lparr>get_model = Returns True, generate_content = Returns all_null_text,
      http_get = Returns (PList [medellin_match])\<rparr>"

definition all_null_update :: "assignment list" where
  "all_null_update =
     [Set_normalized_address (Some ''Medellin, Colombia''), Set_street_info None,
      Set_neighborhood None, Set_apartment_info None, Set_notes None,
      Set_status (Some NORMALIZED)]"

definition medellin_update :: "assignment list" where
  "medellin_update =
     [Set_suggested_address (Some ''Medellin, Antioquia, Colombia''),
      Set_latitude (Some (Finite 6.2443382)), Set_longitude (Some (Finite (- 75.573553))),
      Set_postal_code (Some ''050021''), Set_status (Some VERIFIED)]"

definition verified_row :: address where
  "verified_row =
     pending_row\<lparr>normalized_address := Some ''Medellin, Colombia'',
       suggested_address := Some ''Medellin, Antioquia, Colombia'',
       latitude := Some (Finite 6.2443382), longitude := Some (Finite (- 75.573553)),
       postal_code := Some ''050021'', status := VERIFIED\<rparr>"

text \<open>A run in which the street comes back empty and the geocoder finds no match.\<close>

definition empty_street_run :: services where
  "empty_street_run =
     \<lparr>get_model = Returns True, generate_content = Returns empty_street_text,
      http_get = Returns (PList [])\<rparr>"

definition empty_street_update :: "assignment list" where
  "empty_street_update =
     [Set_normalized_address (Some ''Laureles, Medellin, Colombia''),
      Set_street_info (Some []), Set_neighborhood (Some ''Laureles''),
      Set_apartment_info None, Set_notes None, Set_status (Some NORMALIZED)]"

definition laureles_row :: address where
  "laureles_row =
     pending_row\<lparr>normalized_address := Some ''Laureles, Medellin, Colombia'',
       street_info := Some [], neighborhood := Some ''Laureles'', status := NORMALIZED\<rparr>"

text \<open>The record of a second run on a verified address whose geocoding finds no match.\<close>

definition reverted_row :: address where
  "reverted_row =
     verified_row\<lparr>normalized_address := Some ''Carrera 44B # 13-16, Medellin, Colombia'',
       street_info := Some ''Carrera 44B # 13-16'', status := NORMALIZED\<rparr>"

text \<open>
  A run in which the answer has one field only, a run in which the lookup of the model
  raises, and two runs in which the match of the geocoder lacks a key.
\<close>

definition one_field_answer :: services where
  "one_field_answer =
     \<lparr>get_model = Returns True, generate_content = Returns one_field_text,
      http_get = Returns (PList [])\<rparr>"

definition one_field_update :: "assignment list" where
  "one_field_update =
     [Set_normalized_address (Some ''Calle 10, Medellin, Colombia''),
      Set_street_info (Some ''Calle 10''), Set_neighborhood None,
      Set_apartment_info None, Set_notes None, Set_status (Some NORMALIZED)]"

definition calle_row :: address where
  "calle_row =
     pending_row\<lparr>normalized_address := Some ''Calle 10, Medellin, Colombia'',
       street_info := Some ''Calle 10'', status := NORMALIZED\<rparr>"

definition model_lookup_raises :: services where
  "model_lookup_raises =
     \<lparr>get_model = Raises ServiceError, generate_content = Returns one_field_text,
      http_get = Returns (PList [])\<rparr>"

definition match_without_name :: services where
  "match_without_name =
     \<lparr>get_model = Returns True, generate_content = Returns all_null_text,
      http_get = Returns (PList [PDict [(''lat'', PStr ''6.2443382''),
                                        (''lon'', PStr ''-75.573553'')]])\<rparr>"

definition match_without_lat :: services where
  "match_without_lat =
     \<lparr>get_model = Returns True, generate_content = Returns all_null_text,
      http_get = Returns (PList [PDict [(''lon'', PStr ''-75.573553''),
                                        (''display_name'', PStr ''Medellin'')]])\<rparr>"

text \<open>A run in which the geocoding request times out.\<close>

definition geocoder_timeout :: services where
  "geocoder_timeout =
     \<lparr>get_model = Returns True, generate_content = Returns all_null_text,
      http_get = Raises Timeout\<rparr>"



text \<open>A run in which the model is reported missing, and one with an answer in prose.\<close>

definition model_unavailable :: services where
  "model_unavailable =
     \<lparr>get_model = Returns False, generate_content = Returns street_only_text,
      http_get = Returns (PList [])\<rparr>"

definition prose_answer :: services where
  "prose_answer =
     \<lparr>get_model = Returns True, generate_content = Returns ''No puedo analizar la direccion'',
      http_get = Returns (PList [])\<rparr>"

text \<open>What the geocoder returns for the match above.\<close>

definition medellin_geo :: geocoded where
  "medellin_geo =
     \<lparr>geo_latitude = Finite 6.2443382, geo_longitude = Finite (- 75.573553),
      geo_suggested_address = PStr ''Medellin, Antioquia, Colombia'',
      geo_postal_code = PStr ''050021''\<rparr>"

section \<open>Properties of the pipeline\<close>

subsection \<open>Auxiliary facts\<close>

lemma bind_Returns_iff:
  "bind r f = Returns y \<longleftrightarrow> (\<exists>x. r = Returns x \<and> f x = Returns y)"
  by (cases r) (simp_all add: bind_def)

lemma extraction_update_form:
  assumes "extraction_update p = Returns upd"
  shows "\<exists>n s nb ap nt. upd = [Set_normalized_address (Some n), Set_street_info s,
           Set_neighborhood nb, Set_apartment_info ap, Set_notes nt,
           Set_status (Some NORMALIZED)]"
  using assms unfolding extraction_update_def by (auto simp: bind_Returns_iff)

lemma update_address_extraction:
  assumes "extraction_update p = Returns upd" and "commit_error upd = None"
    and "db i = Some a"
  shows "update_address db i upd =
           (Returns (Some (foldl setattr a upd)), db(i \<mapsto> foldl setattr a upd),
            [Committed i upd])"
proof -
  from extraction_update_form [OF assms(1)] obtain n s nb ap nt where
    "upd = [Set_normalized_address (Some n), Set_street_info s, Set_neighborhood nb,
            Set_apartment_info ap, Set_notes nt, Set_status (Some NORMALIZED)]"
    by blast
  then have "map column_value upd = upd" by simp
  then show ?thesis using assms(2,3)
    by (simp add: update_address_def get_address_def Let_def)
qed

lemma geocoding_update_form:
  assumes "geocoding_update g = Returns upd"
  shows "\<exists>sg pc. upd = [Set_suggested_address sg, Set_latitude (Some (geo_latitude g)),
           Set_longitude (Some (geo_longitude g)), Set_postal_code pc,
           Set_status (Some VERIFIED)]"
  using assms unfolding geocoding_update_def by (auto simp: bind_Returns_iff)

lemma update_address_cases:
  assumes "update_address db i upd = (r, db', evs)" and "db i = Some a"
  shows "(\<exists>e. r = Raises e \<and> db' = db \<and> evs = []) \<or>
         (r = Returns (Some (foldl setattr a (map column_value upd)))
            \<and> db' = db(i \<mapsto> foldl setattr a (map column_value upd))
            \<and> evs = [Committed i (map column_value upd)])"
  using assms
  by (auto simp: update_address_def get_address_def Let_def split: option.splits)

text \<open>The second step either leaves the store alone or commits the geocoding update.\<close>

lemma pipeline_geocoding_cases:
  assumes "pipeline_geocoding lib env db i a1 evs = (r, db', evs')" and "db i = Some a1"
  shows "(db' = db \<and> evs' = evs @ [Geocoder_called (normalized_address a1)]
            \<and> (r = Returns ()
                 \<longrightarrow> geocode_address lib env (normalized_address a1) = Returns None))
       \<or> (\<exists>g upd. geocode_address lib env (normalized_address a1) = Returns (Some g)
            \<and> geocoding_update g = Returns upd \<and> r = Returns ()
            \<and> db' = db(i \<mapsto> foldl setattr a1 (map column_value upd))
            \<and> evs' = evs @ [Geocoder_called (normalized_address a1),
                              Committed i (map column_value upd)])"
proof (cases "geocode_address lib env (normalized_address a1)")
  case (Raises e)
  then show ?thesis using assms(1) by (auto simp: pipeline_geocoding_def Let_def)
next
  case (Returns go)
  show ?thesis
  proof (cases go)
    case None
    then show ?thesis using assms(1) Returns by (auto simp: pipeline_geocoding_def Let_def)
  next
    case (Some g)
    show ?thesis
    proof (cases "geocoding_update g")
      case (Raises e)
      then show ?thesis using assms(1) Returns Some
        by (auto simp: pipeline_geocoding_def Let_def)
    next
      case upd: (Returns upd)
      obtain r2 db2 evs2 where u: "update_address db i upd = (r2, db2, evs2)"
        by (cases "update_address db i upd") auto
      from update_address_cases [where db = db and i = i, OF u assms(2)] show ?thesis
        using assms(1) Returns Some upd u
        by (auto simp: pipeline_geocoding_def Let_def)
    qed
  qed
qed

text \<open>After a successful extraction the run is its second step on the updated store.\<close>

lemma run_extraction_ok:
  assumes "db i = Some a"
    and "parse_address_with_ai lib env (original_address a) = Returns p" and "truthy p"
    and "extraction_update p = Returns upd" and "commit_error upd = None"
  shows "run_processing_pipeline lib env db i =
           pipeline_geocoding lib env (db(i \<mapsto> foldl setattr a upd)) i (foldl setattr a upd)
             [Extractor_called (original_address a), Committed i upd]"
  using assms update_address_extraction [where db = db and i = i, OF assms(4,5,1)]
  by (simp add: run_processing_pipeline_def get_address_def)

text \<open>The three ways a run can go: no record, no extraction, extraction committed.\<close>

lemma run_cases:
  assumes "run_processing_pipeline lib env db i = (r, db', evs)"
  shows "(db i = None \<and> r = Returns () \<and> db' = db \<and> evs = [])
    \<or> (\<exists>a. db i = Some a \<and> db' = db \<and> evs = [Extractor_called (original_address a)])
    \<or> (\<exists>a p upd. db i = Some a
          \<and> parse_address_with_ai lib env (original_address a) = Returns p \<and> truthy p
          \<and> extraction_update p = Returns upd \<and> commit_error upd = None
          \<and> pipeline_geocoding lib env (db(i \<mapsto> foldl setattr a upd)) i
               (foldl setattr a upd)
               [Extractor_called (original_address a), Committed i upd] = (r, db', evs))"
proof (cases "db i")
  case None
  then show ?thesis using assms by (simp add: run_processing_pipeline_def get_address_def)
next
  case (Some a)
  show ?thesis
  proof (cases "parse_address_with_ai lib env (original_address a)")
    case (Raises e)
    then show ?thesis using assms Some
      by (auto simp: run_processing_pipeline_def get_address_def)
  next
    case (Returns p)
    show ?thesis
    proof (cases "truthy p")
      case False
      then show ?thesis using assms Some Returns
        by (auto simp: run_processing_pipeline_def get_address_def)
    next
      case True
      show ?thesis
      proof (cases "extraction_update p")
        case (Raises e)
        then show ?thesis using assms Some Returns True
          by (auto simp: run_processing_pipeline_def get_address_def)
      next
        case upd: (Returns upd)
        show ?thesis
        proof (cases "commit_error upd")
          case None
          from run_extraction_ok [where db = db and i = i, OF Some Returns True upd None]
            assms
          show ?thesis using Some Returns True upd None by auto
        next
          case (Some e)
          then show ?thesis using assms \<open>db i = Some a\<close> Returns True upd
            by (auto simp: run_processing_pipeline_def get_address_def update_address_def)
        qed
      qed
    qed
  qed
qed

lemma extraction_update_fields:
  assumes "extraction_update p = Returns upd"
  shows "\<exists>n s nb ap nt.
           upd = [Set_normalized_address (Some n), Set_street_info s, Set_neighborhood nb,
                  Set_apartment_info ap, Set_notes nt, Set_status (Some NORMALIZED)]
         \<and> bind (py_get p ''street_info'') validate_str = Returns s
         \<and> bind (py_get p ''neighborhood'') validate_str = Returns nb
         \<and> bind (py_get p ''apartment_info'') validate_str = Returns ap
         \<and> bind (py_get p ''notes'') validate_str = Returns nt"
  using assms unfolding extraction_update_def
  by (auto simp: bind_Returns_iff simp del: filter.simps)

lemma pipeline_geocoding_failure:
  assumes "\<forall>g. geocode_address lib env (normalized_address a1) \<noteq> Returns (Some g)"
  shows "\<exists>r. pipeline_geocoding lib env db i a1 evs
           = (r, db, evs @ [Geocoder_called (normalized_address a1)])"
  using assms
  by (auto simp: pipeline_geocoding_def Let_def split: result.splits option.splits)

lemma run_success_cases:
  assumes "db i = Some a"
    and "parse_address_with_ai lib env (original_address a) = Returns p" and "truthy p"
    and "extraction_update p = Returns upd" and "commit_error upd = None"
    and "run_processing_pipeline lib env db i = (r, db', evs)"
  shows "(db' = db(i \<mapsto> foldl setattr a upd)
            \<and> evs = [Extractor_called (original_address a), Committed i upd,
                      Geocoder_called (normalized_address (foldl setattr a upd))]
            \<and> (r = Returns () \<longrightarrow>
                  geocode_address lib env (normalized_address (foldl setattr a upd))
                    = Returns None))
       \<or> (\<exists>g upd2. geocode_address lib env (normalized_address (foldl setattr a upd))
                       = Returns (Some g)
            \<and> geocoding_update g = Returns upd2 \<and> r = Returns ()
            \<and> db' = db(i \<mapsto> foldl setattr (foldl setattr a upd) (map column_value upd2))
            \<and> evs = [Extractor_called (original_address a), Committed i upd,
                      Geocoder_called (normalized_address (foldl setattr a upd)),
                      Committed i (map column_value upd2)])"
proof -
  let ?a1 = "foldl setattr a upd"
  have g: "pipeline_geocoding lib env (db(i \<mapsto> ?a1)) i ?a1
             [Extractor_called (original_address a), Committed i upd] = (r, db', evs)"
    using run_extraction_ok [where db = db and i = i, OF assms(1,2,3,4,5)] assms(6) by simp
  have "(db(i \<mapsto> ?a1)) i = Some ?a1" by simp
  from pipeline_geocoding_cases [where db = "db(i \<mapsto> ?a1)" and i = i, OF g this]
  show ?thesis by auto
qed

text \<open>What \<^verbatim>\<open>filter(None, ...)\<close> and \<^verbatim>\<open>join\<close> make of two validated fields.\<close>

lemma join_normalized:
  assumes "validate_str street = Returns s" and "validate_str neigh = Returns nb"
  shows "join '', '' (filter truthy [street, neigh, PStr ''Medellin'', PStr ''Colombia''])
           = Returns (intercalate '', '' (normalized_parts s nb))"
proof -
  have s: "(street = PNone \<and> s = None) \<or> (\<exists>t. street = PStr t \<and> s = Some t)"
    using assms(1) by (cases street) auto
  have n: "(neigh = PNone \<and> nb = None) \<or> (\<exists>t. neigh = PStr t \<and> nb = Some t)"
    using assms(2) by (cases neigh) auto
  from s n show ?thesis
    by (auto simp: join_def bind_def normalized_parts_def)
qed

lemma extraction_update_normalized:
  assumes "extraction_update p = Returns upd"
  shows "\<exists>s nb ap nt.
           upd = [Set_normalized_address (Some (intercalate '', '' (normalized_parts s nb))),
                  Set_street_info s, Set_neighborhood nb,
                  Set_apartment_info ap, Set_notes nt, Set_status (Some NORMALIZED)]
         \<and> bind (py_get p ''street_info'') validate_str = Returns s
         \<and> bind (py_get p ''neighborhood'') validate_str = Returns nb"
proof -
  from assms obtain street neigh n ap nt s nb where
    a: "py_get p ''street_info'' = Returns street" "py_get p ''neighborhood'' = Returns neigh"
    and j: "join '', '' (filter truthy [street, neigh, PStr ''Medellin'', PStr ''Colombia''])
         = Returns n"
    and v: "validate_str street = Returns s" "validate_str neigh = Returns nb"
    and u: "upd = [Set_normalized_address (Some n), Set_street_info s, Set_neighborhood nb,
                  Set_apartment_info ap, Set_notes nt, Set_status (Some NORMALIZED)]"
    unfolding extraction_update_def
    by (auto simp: bind_Returns_iff simp del: filter.simps)
  from join_normalized [OF v] j have "n = intercalate '', '' (normalized_parts s nb)" by simp
  with a v u show ?thesis by (simp add: bind_Returns_iff)
qed




text \<open>The second update touches none of the extraction fields.\<close>

lemma geocoding_keeps_extraction_fields:
  assumes "geocoding_update g = Returns upd2"
  shows "street_info (foldl setattr a1 (map column_value upd2)) = street_info a1"
    and "neighborhood (foldl setattr a1 (map column_value upd2)) = neighborhood a1"
    and "apartment_info (foldl setattr a1 (map column_value upd2)) = apartment_info a1"
    and "notes' (foldl setattr a1 (map column_value upd2)) = notes' a1"
    and "normalized_address (foldl setattr a1 (map column_value upd2))
           = normalized_address a1"
    and "original_address (foldl setattr a1 (map column_value upd2)) = original_address a1"
    and "status (foldl setattr a1 (map column_value upd2)) = VERIFIED"
    and "latitude (foldl setattr a1 (map column_value upd2)) = Some (geo_latitude g)"
    and "longitude (foldl setattr a1 (map column_value upd2)) = Some (geo_longitude g)"
  using geocoding_update_form [OF assms] by auto

lemma run_outcomes:
  assumes "run_processing_pipeline lib env db i = (r, db', evs)"
  shows "(db' = db \<and> (\<forall>q. Geocoder_called q \<notin> set evs)
            \<and> (\<forall>j upd. Committed j upd \<notin> set evs))
    \<or> (\<exists>a p upd. db i = Some a
          \<and> parse_address_with_ai lib env (original_address a) = Returns p \<and> truthy p
          \<and> extraction_update p = Returns upd \<and> commit_error upd = None
          \<and> ((db' = db(i \<mapsto> foldl setattr a upd)
                \<and> evs = [Extractor_called (original_address a), Committed i upd,
                          Geocoder_called (normalized_address (foldl setattr a upd))])
             \<or> (\<exists>g upd2. geocode_address lib env (normalized_address (foldl setattr a upd))
                             = Returns (Some g)
                  \<and> geocoding_update g = Returns upd2 \<and> r = Returns ()
                  \<and> db' = db(i \<mapsto> foldl setattr (foldl setattr a upd)
                                        (map column_value upd2))
                  \<and> evs = [Extractor_called (original_address a), Committed i upd,
                            Geocoder_called (normalized_address (foldl setattr a upd)),
                            Committed i (map column_value upd2)])))"
  using run_cases [OF assms]
proof (elim disjE exE conjE)
  assume "db' = db" "evs = []"
  then show ?thesis by simp
next
  fix a :: address
  assume "db' = db" "evs = [Extractor_called (original_address a)]"
  then show ?thesis by simp
next
  fix a p upd
  assume 3: "db i = Some a"
    "parse_address_with_ai lib env (original_address a) = Returns p" "truthy p"
    "extraction_update p = Returns upd" "commit_error upd = None"
  from run_success_cases [where db = db and i = i, OF 3 assms] 3
  show ?thesis by blast
qed

lemma run_status_step:
  assumes "run_processing_pipeline lib env db k = (r, db', evs)" and "db i = Some a"
  shows "\<exists>a'. db' i = Some a' \<and>
           (status_rank (status a) \<le> status_rank (status a')
              \<or> status a = VERIFIED \<and> status a' = NORMALIZED)"
proof -
  from run_outcomes [OF assms(1)]
  consider "db' = db"
    | b p upd where "db k = Some b" "extraction_update p = Returns upd"
        "db' = db(k \<mapsto> foldl setattr b upd)"
    | b g upd2 b1 where "db k = Some b" "geocoding_update g = Returns upd2"
        "db' = db(k \<mapsto> foldl setattr b1 (map column_value upd2))"
    by blast
  then show ?thesis
  proof cases
    case 1
    then show ?thesis using assms(2) by simp
  next
    case 2
    from extraction_update_form [OF 2(2)] have "status (foldl setattr b upd) = NORMALIZED"
      by auto
    with 2 assms(2) show ?thesis by (cases "i = k"; cases "status a") auto
  next
    case 3
    from geocoding_keeps_extraction_fields(7) [OF 3(2), of b1]
    have "status (foldl setattr b1 (map column_value upd2)) = VERIFIED" .
    with 3 assms(2) show ?thesis by (cases "i = k"; cases "status a") auto
  qed
qed

lemma create_keeps_rows:
  assumes "db i = Some a"
  shows "(case create_address db new_id original of Returns db' \<Rightarrow> db' | Raises e \<Rightarrow> db) i
           = Some a"
  using assms by (auto simp: create_address_def)

lemma run_keeps_coordinates:
  assumes "run_processing_pipeline lib env db k = (r, db', evs)"
    and "\<forall>i a. db i = Some a \<longrightarrow> coordinates_ok a"
  shows "\<forall>i a. db' i = Some a \<longrightarrow> coordinates_ok a"
proof -
  from run_outcomes [OF assms(1)]
  consider "db' = db"
    | b p upd where "db k = Some b" "extraction_update p = Returns upd"
        "db' = db(k \<mapsto> foldl setattr b upd)"
    | b g upd2 b1 where "db k = Some b" "geocoding_update g = Returns upd2"
        "db' = db(k \<mapsto> foldl setattr b1 (map column_value upd2))"
    by blast
  then show ?thesis
  proof cases
    case 1
    then show ?thesis using assms(2) by simp
  next
    case 2
    from 2(1) assms(2) have "coordinates_ok b" by blast
    with extraction_update_form [OF 2(2)] have "coordinates_ok (foldl setattr b upd)"
      by (auto simp: coordinates_ok_def)
    with 2(3) assms(2) show ?thesis by auto
  next
    case 3
    from geocoding_keeps_extraction_fields(7,8,9) [OF 3(2), of b1]
    have "coordinates_ok (foldl setattr b1 (map column_value upd2))"
      by (simp add: coordinates_ok_def)
    with 3(3) assms(2) show ?thesis by auto
  qed
qed

lemma create_keeps_coordinates:
  assumes "\<forall>i a. db i = Some a \<longrightarrow> coordinates_ok a"
  shows "\<forall>i a.
           (case create_address db new_id original of Returns db' \<Rightarrow> db' | Raises e \<Rightarrow> db) i
             = Some a
           \<longrightarrow> coordinates_ok a"
  using assms by (auto simp: create_address_def coordinates_ok_def)

lemma execute_keeps_coordinates:
  assumes "\<forall>i a. db i = Some a \<longrightarrow> coordinates_ok a"
  shows "\<forall>i a. execute lib db ops i = Some a \<longrightarrow> coordinates_ok a"
  using assms
proof (induction ops arbitrary: db)
  case Nil
  then show ?case by simp
next
  case (Cons op ops)
  show ?case
  proof (cases op)
    case (Create new_id original)
    from Cons.IH [OF create_keeps_coordinates [OF Cons.prems]] show ?thesis
      using Create by simp
  next
    case (Run k env)
    obtain r db1 evs where run: "run_processing_pipeline lib env db k = (r, db1, evs)"
      by (cases "run_processing_pipeline lib env db k") auto
    from Cons.IH [OF run_keeps_coordinates [OF run Cons.prems]] show ?thesis
      using Run run by simp
  qed
qed

lemma verified_commit_sets_both:
  assumes "run_processing_pipeline lib env db k = (r, db', evs)"
    and "Committed j upd \<in> set evs" and "Set_status (Some VERIFIED) \<in> set upd"
  shows "\<exists>la lo. Set_latitude (Some la) \<in> set upd \<and> Set_longitude (Some lo) \<in> set upd"
proof -
  from run_outcomes [OF assms(1)] assms(2)
  consider p where "extraction_update p = Returns upd"
    | g upd2 where "geocoding_update g = Returns upd2" "upd = map column_value upd2"
    by auto
  then show ?thesis
  proof cases
    case 1
    from extraction_update_form [OF 1] assms(3) show ?thesis by auto
  next
    case 2
    from geocoding_update_form [OF 2(1)] 2(2) show ?thesis by auto
  qed
qed

lemma replay_no_commit:
  assumes "\<forall>j upd. Committed j upd \<notin> set evs"
  shows "replay db evs = db"
  using assms
proof (induction evs)
  case Nil
  then show ?case by simp
next
  case (Cons ev evs)
  then show ?case by (cases ev) auto
qed

lemma split_at_geocoder_call:
  assumes "pre @ Geocoder_called q # post
             = Extractor_called s # Committed i u # Geocoder_called q' # rest"
    and "\<forall>q. Geocoder_called q \<notin> set rest"
  shows "pre = [Extractor_called s, Committed i u] \<and> q = q' \<and> post = rest"
  using assms
  by (auto simp: append_eq_Cons_conv Cons_eq_append_conv)

text \<open>What the handler of \<^verbatim>\<open>geocode_address\<close> lets through.\<close>

lemma except_RequestException_Returns:
  "except_RequestException r = Returns x \<longleftrightarrow>
     r = Returns x \<or> (x = None \<and> (\<exists>e. r = Raises e \<and> is_RequestException e))"
  by (cases r) (auto simp: except_RequestException_def)

lemma except_RequestException_Raises:
  "except_RequestException r = Raises e \<longleftrightarrow> r = Raises e \<and> \<not> is_RequestException e"
  by (cases r) (auto simp: except_RequestException_def)

lemma getitem0_then_get:
  assumes "py_getitem0 data = Returns result" and "py_get result k = Returns v"
  shows "\<exists>rest. data = PList (result # rest)"
  using assms
  by (cases data rule: py_getitem0.cases) (auto simp: py_get_def)

lemma geocode_address_success:
  assumes "geocode_address lib env address = Returns (Some g)"
  shows "\<exists>result rest. http_get env = Returns (PList (result # rest))
           \<and> bind (py_get result ''lat'') (py_float lib) = Returns (geo_latitude g)
           \<and> bind (py_get result ''lon'') (py_float lib) = Returns (geo_longitude g)
           \<and> py_get result ''display_name'' = Returns (geo_suggested_address g)
           \<and> bind (py_get_default result ''address'' (PDict []))
                (\<lambda>addr. py_get addr ''postcode'') = Returns (geo_postal_code g)"
proof -
  from assms obtain data result lat la lon lo display_name addr postcode where
    h: "http_get env = Returns data" "py_getitem0 data = Returns result"
      "py_get result ''lat'' = Returns lat" "py_float lib lat = Returns la"
      "py_get result ''lon'' = Returns lon" "py_float lib lon = Returns lo"
      "py_get result ''display_name'' = Returns display_name"
      "py_get_default result ''address'' (PDict []) = Returns addr"
      "py_get addr ''postcode'' = Returns postcode"
      "g = \<lparr>geo_latitude = la, geo_longitude = lo, geo_suggested_address = display_name,
             geo_postal_code = postcode\<rparr>"
    by (auto simp: geocode_address_def except_RequestException_Returns bind_Returns_iff
        split: if_splits)
  from getitem0_then_get [OF h(2,3)] obtain rest where "data = PList (result # rest)" by blast
  with h show ?thesis by (auto simp: bind_Returns_iff)
qed

subsection \<open>Facts about the string functions\<close>

lemma replace_Nil: "old \<noteq> [] \<Longrightarrow> replace [] old new = []"
  by (subst replace.simps) simp

lemma replace_at: "old \<noteq> [] \<Longrightarrow> replace (old @ t) old new = new @ replace t old new"
  by (subst replace.simps) simp

lemma replace_skip:
  assumes "old \<noteq> []" and "hd old \<notin> set s"
  shows "replace (s @ t) old new = s @ replace t old new"
  using assms(2)
proof (induction s)
  case Nil
  then show ?case by simp
next
  case (Cons c cs)
  have "take (length old) ((c # cs) @ t) \<noteq> old"
  proof
    assume "take (length old) ((c # cs) @ t) = old"
    then have "hd old = hd (take (length old) ((c # cs) @ t))" by simp
    also have "\<dots> = c" using assms(1) by (cases old) auto
    finally show False using Cons.prems by simp
  qed
  then have "replace ((c # cs) @ t) old new = c # replace (cs @ t) old new"
    using assms(1) by (subst replace.simps) simp
  with Cons show ?case by simp
qed

lemma strip_spaces_around:
  assumes "s \<noteq> []" and "\<not> is_space (hd s)" and "\<not> is_space (last s)"
    and "list_all is_space lead" and "list_all is_space trail"
  shows "strip (lead @ s @ trail) = s"
proof -
  have "dropWhile is_space (lead @ s @ trail) = dropWhile is_space (s @ trail)"
    using assms(4) by (intro dropWhile_append2) (simp add: list_all_iff)
  also have "\<dots> = s @ trail"
    using assms(1,2) by (cases s) auto
  finally have 1: "dropWhile is_space (lead @ s @ trail) = s @ trail" .
  have "dropWhile is_space (rev trail @ rev s) = dropWhile is_space (rev s)"
    using assms(5) by (intro dropWhile_append2) (simp add: list_all_iff)
  also have "\<dots> = rev s"
    using assms(1,3) by (cases "rev s") (auto simp: last_rev hd_rev)
  finally show ?thesis by (simp add: strip_def 1)
qed

lemma cleaned_response_fenced:
  assumes "CHR 0x60 \<notin> set body" and "list_all is_space lead" and "list_all is_space trail"
  shows "cleaned_response (lead @ ''```json'' @ body @ ''```'' @ trail) = strip body"
proof -
  have "strip (lead @ (''```json'' @ body @ ''```'') @ trail) = ''```json'' @ body @ ''```''"
    by (rule strip_spaces_around) (use assms in \<open>simp_all add: is_space_def\<close>)
  then have 1: "strip (lead @ ''```json'' @ body @ ''```'' @ trail) = ''```json'' @ body @ ''```''"
    by simp
  have "replace (''```json'' @ body @ ''```'') ''```json'' [] = replace (body @ ''```'') ''```json'' []"
    using replace_at [of "''```json''" "body @ ''```''" "[]"] by simp
  also have "\<dots> = body @ replace ''```'' ''```json'' []"
    using assms(1) by (intro replace_skip) simp_all
  also have "replace ''```'' ''```json'' [] = ''```''"
    by (simp add: replace.simps)
  finally have 2: "replace (''```json'' @ body @ ''```'') ''```json'' [] = body @ ''```''" .
  have "replace (body @ ''```'') ''```'' [] = body @ replace ''```'' ''```'' []"
    using assms(1) by (intro replace_skip) simp_all
  also have "replace ''```'' ''```'' [] = []"
    by (simp add: replace.simps)
  finally have 3: "replace (body @ ''```'') ''```'' [] = body" by simp
  show ?thesis by (simp only: cleaned_response_def 1 2 3)
qed

lemma strip_strip: "strip (strip t) = strip t"
proof -
  define d where "d = dropWhile is_space t"
  define m where "m = rev (dropWhile is_space (rev d))"
  have "rev (takeWhile is_space (rev d) @ dropWhile is_space (rev d)) = rev (rev d)"
    by (simp only: takeWhile_dropWhile_id)
  then have "rev (dropWhile is_space (rev d)) @ rev (takeWhile is_space (rev d)) = d"
    by (simp only: rev_append rev_rev_ident)
  then have dm: "d = m @ rev (takeWhile is_space (rev d))"
    by (simp only: m_def)
  have 1: "dropWhile is_space m = m"
  proof (cases m)
    case Nil
    then show ?thesis by simp
  next
    case (Cons x xs)
    with dm have "d = x # xs @ rev (takeWhile is_space (rev d))" by simp
    then have "d \<noteq> []" and "hd d = x" by (metis list.distinct(1), metis list.sel(1))
    then have "\<not> is_space x" using hd_dropWhile [of is_space t] by (simp add: d_def)
    with Cons show ?thesis by simp
  qed
  have 2: "dropWhile is_space (rev m) = rev m" by (simp add: m_def)
  have "strip t = m" by (simp add: strip_def d_def m_def)
  moreover have "strip m = m" by (simp add: strip_def 1 2)
  ultimately show ?thesis by simp
qed

lemma cleaned_response_plain:
  assumes "CHR 0x60 \<notin> set text"
  shows "cleaned_response text = strip text"
proof -
  have "set (strip text) \<subseteq> set text"
  proof
    fix x assume "x \<in> set (strip text)"
    then have "x \<in> set (dropWhile is_space (rev (dropWhile is_space text)))"
      by (simp add: strip_def)
    then have "x \<in> set (rev (dropWhile is_space text))" by (rule set_dropWhileD)
    then have "x \<in> set (dropWhile is_space text)" by simp
    then show "x \<in> set text" by (rule set_dropWhileD)
  qed
  with assms have t: "CHR 0x60 \<notin> set (strip text)" by blast
  have "replace (strip text @ []) ''```json'' [] = strip text @ replace [] ''```json'' []"
    using t by (intro replace_skip) simp_all
  then have 1: "replace (strip text) ''```json'' [] = strip text" by (simp add: replace_Nil)
  have "replace (strip text @ []) ''```'' [] = strip text @ replace [] ''```'' []"
    using t by (intro replace_skip) simp_all
  then have 2: "replace (strip text) ''```'' [] = strip text" by (simp add: replace_Nil)
  show ?thesis by (simp add: cleaned_response_def 1 2 strip_strip)
qed


subsection \<open>The example runs, evaluated\<close>

lemma example_db_row: "get_address example_db 7 = Some pending_row"
  by (simp add: get_address_def example_db_def)

lemma parse_street_only:
  "parse_address_with_ai example_lib no_match (original_address pending_row)
     = Returns street_only"
  by (simp add: parse_address_with_ai_def example_lib_def
      street_only_document_def no_match_def street_only_text_def
      cleaned_response_def strip_def is_space_def replace.simps)

lemma truthy_street_only: "truthy street_only"
  by (simp add: street_only_def)

lemma extraction_update_street_only:
  "extraction_update street_only = Returns street_only_update"
  by (simp add: extraction_update_def street_only_def street_only_update_def py_get_def
      bind_def join_def)

lemma commit_street_only: "commit_error street_only_update = None"
  by (simp add: commit_error_def has_nul_def street_only_update_def)

lemma setattr_street_only: "foldl setattr pending_row street_only_update = normalized_row"
  by (simp add: street_only_update_def normalized_row_def pending_row_def)

lemma geocode_no_match:
  "geocode_address example_lib no_match (normalized_address normalized_row) = Returns None"
  by (simp add: geocode_address_def no_match_def normalized_row_def
      except_RequestException_def bind_def)

lemma run_no_match:
  "run_processing_pipeline example_lib no_match example_db 7
     = (Returns (), example_db(7 \<mapsto> normalized_row),
        [Extractor_called ''av. carrera 44B calle 13-16'', Committed 7 street_only_update,
         Geocoder_called (Some ''Carrera 44B # 13-16, Medellin, Colombia'')])"
  by (simp add: run_processing_pipeline_def get_address_def example_db_def pending_row_def
      parse_address_with_ai_def example_lib_def
      street_only_document_def no_match_def street_only_text_def
      cleaned_response_def
      strip_def is_space_def replace.simps street_only_def extraction_update_def py_get_def
      bind_def join_def update_address_def
      commit_error_def has_nul_def Let_def pipeline_geocoding_def geocode_address_def
      except_RequestException_def street_only_update_def normalized_row_def)


lemma run_all_null_found:
  "run_processing_pipeline example_lib all_null_found example_db 7
     = (Returns (), example_db(7 \<mapsto> verified_row),
        [Extractor_called ''av. carrera 44B calle 13-16'', Committed 7 all_null_update,
         Geocoder_called (Some ''Medellin, Colombia''), Committed 7 medellin_update])"
  by (simp add: run_processing_pipeline_def get_address_def example_db_def pending_row_def
      parse_address_with_ai_def example_lib_def
      street_only_document_def all_null_found_def all_null_text_def
      cleaned_response_def
      strip_def is_space_def replace.simps all_null_def extraction_update_def py_get_def
      bind_def join_def update_address_def
      commit_error_def has_nul_def Let_def pipeline_geocoding_def geocode_address_def
      except_RequestException_def all_null_update_def verified_row_def medellin_match_def
      medellin_update_def geocoding_update_def)

lemma create_example_db:
  "create_address Map.empty 7 ''av. carrera 44B calle 13-16'' = Returns example_db"
  by (simp add: create_address_def example_db_def pending_row_def)

lemma run_no_match_verified:
  "run_processing_pipeline example_lib no_match (example_db(7 \<mapsto> verified_row)) 7
     = (Returns (), example_db(7 \<mapsto> reverted_row),
        [Extractor_called ''av. carrera 44B calle 13-16'', Committed 7 street_only_update,
         Geocoder_called (Some ''Carrera 44B # 13-16, Medellin, Colombia'')])"
  by (simp add: run_processing_pipeline_def get_address_def example_db_def pending_row_def
      parse_address_with_ai_def example_lib_def
      street_only_document_def no_match_def street_only_text_def
      cleaned_response_def
      strip_def is_space_def replace.simps street_only_def extraction_update_def py_get_def
      bind_def join_def update_address_def
      commit_error_def has_nul_def Let_def pipeline_geocoding_def geocode_address_def
      except_RequestException_def street_only_update_def verified_row_def reverted_row_def)

lemma cleaned_street_only_text: "cleaned_response street_only_text = street_only_document"
proof -
  have "CHR 0x60 \<notin> set (CHR 0x0A # street_only_document @ [CHR 0x0A])"
    by (simp add: street_only_document_def)
  from cleaned_response_fenced [OF this, of "[]" "[]"]
  have "cleaned_response street_only_text
          = strip (CHR 0x0A # street_only_document @ [CHR 0x0A])"
    by (simp add: street_only_text_def)
  also have "\<dots> = street_only_document"
    using strip_spaces_around [of street_only_document "[CHR 0x0A]" "[CHR 0x0A]"]
    by (simp add: street_only_document_def is_space_def)
  finally show ?thesis .
qed

subsection \<open>Runs that stop before the first update\<close>

text \<open>
  C9. A run started with an id that the store does not resolve returns normally to its
  caller, leaves the store as it was and calls neither the extractor nor the geocoder:
  the run has no event at all.
\<close>

theorem unknown_id_aborts_silently:
  assumes "get_address db address_id = None"
  shows "run_processing_pipeline lib env db address_id = (Returns (), db, [])"
  using assms by (simp add: run_processing_pipeline_def)

theorem unknown_id_aborts_silently_witness:
  "get_address example_db 2 = None \<and>
   run_processing_pipeline example_lib extractor_down example_db 2
     = (Returns (), example_db, [])"
  using unknown_id_aborts_silently [of example_db 2 example_lib extractor_down]
  by (simp add: get_address_def example_db_def)

text \<open>
  C2. When the extractor returns a failure (\<^verbatim>\<open>None\<close>, or any other value that the
  test \<^verbatim>\<open>if parsed_data\<close> takes for one), the run returns with the store unchanged, so
  no field of the record is mutated and its status stays what it was, and the only event
  of the run is the call of the extractor: the geocoder is not called.
\<close>

theorem extraction_failure_mutates_nothing:
  assumes "get_address db address_id = Some a"
    and "parse_address_with_ai lib env (original_address a) = Returns p"
    and "\<not> truthy p"
  shows "run_processing_pipeline lib env db address_id =
           (Returns (), db, [Extractor_called (original_address a)])"
  using assms by (simp add: run_processing_pipeline_def)

theorem extraction_failure_mutates_nothing_witness:
  "get_address example_db 7 = Some pending_row \<and>
   parse_address_with_ai example_lib extractor_down (original_address pending_row)
     = Returns PNone \<and>
   \<not> truthy PNone \<and>
   status pending_row = PENDING \<and>
   run_processing_pipeline example_lib extractor_down example_db 7
     = (Returns (), example_db, [Extractor_called ''av. carrera 44B calle 13-16''])"
proof -
  have g: "get_address example_db 7 = Some pending_row"
    by (simp add: get_address_def example_db_def)
  have p: "parse_address_with_ai example_lib extractor_down (original_address pending_row)
             = Returns PNone"
    by (simp add: parse_address_with_ai_def extractor_down_def)
  have t: "\<not> truthy PNone" by simp
  from extraction_failure_mutates_nothing [OF g p t] g p
  show ?thesis by (simp add: pending_row_def)
qed

subsection \<open>A geocoding failure after a successful extraction\<close>

text \<open>
  C3. When the extraction of a run succeeded (the first update was built and the store
  committed it) and the geocoder then fails, by returning \<^verbatim>\<open>None\<close> or by raising, the store after the
  run holds exactly the record that the first update committed: \<open>street_info\<close>,
  \<open>neighborhood\<close>, \<open>apartment_info\<close>, \<open>notes\<close> and \<open>normalized_address\<close> are the
  extracted values, the status is \<open>NORMALIZED\<close>, and \<open>latitude\<close> and \<open>longitude\<close> are
  what they were before the run (null when they were null). There is no further commit.
\<close>

theorem geocoding_failure_keeps_extraction:
  assumes "get_address db address_id = Some a"
    and "parse_address_with_ai lib env (original_address a) = Returns p" and "truthy p"
    and "extraction_update p = Returns upd" and "commit_error upd = None"
    and "\<forall>g. geocode_address lib env (normalized_address (foldl setattr a upd))
               \<noteq> Returns (Some g)"
  shows "\<exists>r a1. run_processing_pipeline lib env db address_id
             = (r, db(address_id \<mapsto> a1),
                [Extractor_called (original_address a), Committed address_id upd,
                 Geocoder_called (normalized_address a1)])
         \<and> a1 = foldl setattr a upd
         \<and> bind (py_get p ''street_info'') validate_str = Returns (street_info a1)
         \<and> bind (py_get p ''neighborhood'') validate_str = Returns (neighborhood a1)
         \<and> bind (py_get p ''apartment_info'') validate_str = Returns (apartment_info a1)
         \<and> bind (py_get p ''notes'') validate_str = Returns (notes' a1)
         \<and> Set_normalized_address (normalized_address a1) \<in> set upd
         \<and> status a1 = NORMALIZED
         \<and> latitude a1 = latitude a \<and> longitude a1 = longitude a"
proof -
  from assms(1) have dba: "db address_id = Some a" by (simp add: get_address_def)
  from extraction_update_fields [OF assms(4)] obtain n s nb ap nt where
    upd: "upd = [Set_normalized_address (Some n), Set_street_info s, Set_neighborhood nb,
                  Set_apartment_info ap, Set_notes nt, Set_status (Some NORMALIZED)]"
    and f: "bind (py_get p ''street_info'') validate_str = Returns s"
      "bind (py_get p ''neighborhood'') validate_str = Returns nb"
      "bind (py_get p ''apartment_info'') validate_str = Returns ap"
      "bind (py_get p ''notes'') validate_str = Returns nt"
    by blast
  from pipeline_geocoding_failure [OF assms(6)] obtain r where
    "pipeline_geocoding lib env (db(address_id \<mapsto> foldl setattr a upd)) address_id
       (foldl setattr a upd) [Extractor_called (original_address a), Committed address_id upd]
     = (r, db(address_id \<mapsto> foldl setattr a upd),
        [Extractor_called (original_address a), Committed address_id upd]
          @ [Geocoder_called (normalized_address (foldl setattr a upd))])"
    by blast
  with run_extraction_ok [where db = db and i = address_id, OF dba assms(2,3,4,5)]
  have "run_processing_pipeline lib env db address_id
          = (r, db(address_id \<mapsto> foldl setattr a upd),
             [Extractor_called (original_address a), Committed address_id upd,
              Geocoder_called (normalized_address (foldl setattr a upd))])"
    by simp
  moreover have "street_info (foldl setattr a upd) = s"
    "neighborhood (foldl setattr a upd) = nb"
    "apartment_info (foldl setattr a upd) = ap" "notes' (foldl setattr a upd) = nt"
    "normalized_address (foldl setattr a upd) = Some n"
    "status (foldl setattr a upd) = NORMALIZED"
    "latitude (foldl setattr a upd) = latitude a"
    "longitude (foldl setattr a upd) = longitude a"
    by (simp_all add: upd)
  ultimately show ?thesis using f upd by simp
qed

theorem geocoding_failure_keeps_extraction_witness:
  "get_address example_db 7 = Some pending_row \<and>
   parse_address_with_ai example_lib no_match (original_address pending_row)
     = Returns street_only \<and>
   truthy street_only \<and>
   extraction_update street_only = Returns street_only_update \<and>
   commit_error street_only_update = None \<and>
   (\<forall>g. geocode_address example_lib no_match
          (normalized_address (foldl setattr pending_row street_only_update))
        \<noteq> Returns (Some g)) \<and>
   (\<exists>r. run_processing_pipeline example_lib no_match example_db 7
      = (r, example_db(7 \<mapsto> normalized_row),
         [Extractor_called ''av. carrera 44B calle 13-16'', Committed 7 street_only_update,
          Geocoder_called (Some ''Carrera 44B # 13-16, Medellin, Colombia'')])) \<and>
   street_info normalized_row = Some ''Carrera 44B # 13-16'' \<and>
   status normalized_row = NORMALIZED \<and>
   latitude normalized_row = None \<and> longitude normalized_row = None"
proof -
  have h5: "\<forall>g. geocode_address example_lib no_match
          (normalized_address (foldl setattr pending_row street_only_update))
        \<noteq> Returns (Some g)"
    by (simp add: setattr_street_only geocode_no_match)
  from geocoding_failure_keeps_extraction
    [OF example_db_row parse_street_only truthy_street_only extraction_update_street_only
        commit_street_only h5]
  obtain r where "run_processing_pipeline example_lib no_match example_db 7
      = (r, example_db(7 \<mapsto> normalized_row),
         [Extractor_called (original_address pending_row), Committed 7 street_only_update,
          Geocoder_called (normalized_address normalized_row)])"
    by (auto simp: setattr_street_only)
  then have "\<exists>r. run_processing_pipeline example_lib no_match example_db 7
      = (r, example_db(7 \<mapsto> normalized_row),
         [Extractor_called ''av. carrera 44B calle 13-16'', Committed 7 street_only_update,
          Geocoder_called (Some ''Carrera 44B # 13-16, Medellin, Colombia'')])"
    by (simp add: pending_row_def normalized_row_def)
  then show ?thesis
    using example_db_row parse_street_only truthy_street_only extraction_update_street_only
      commit_street_only h5
    by (simp add: normalized_row_def pending_row_def)
qed

subsection \<open>The normalized address\<close>

text \<open>
  C4, as amended. When the extraction of a run succeeded and the store committed its
  update, the normalized address that the run persists is the comma-separated join of those elements of
  \<open>[street_info, neighborhood, "Medellin", "Colombia"]\<close> that are neither null nor the
  empty string, where \<open>street_info\<close> and \<open>neighborhood\<close> are the values persisted with it.
  It is the join of the non-null elements whenever neither field is the empty string.
\<close>

theorem normalized_address_joins_nonempty_parts:
  assumes "get_address db address_id = Some a"
    and "parse_address_with_ai lib env (original_address a) = Returns p" and "truthy p"
    and "extraction_update p = Returns upd" and "commit_error upd = None"
    and "run_processing_pipeline lib env db address_id = (r, db', evs)"
  shows "\<exists>a'. db' address_id = Some a'
         \<and> bind (py_get p ''street_info'') validate_str = Returns (street_info a')
         \<and> bind (py_get p ''neighborhood'') validate_str = Returns (neighborhood a')
         \<and> normalized_address a'
             = Some (intercalate '', '' (normalized_parts (street_info a') (neighborhood a')))
         \<and> (street_info a' \<noteq> Some [] \<and> neighborhood a' \<noteq> Some [] \<longrightarrow>
               normalized_address a'
                 = Some (normalized_by_spec (street_info a') (neighborhood a')))"
proof -
  from assms(1) have dba: "db address_id = Some a" by (simp add: get_address_def)
  let ?a1 = "foldl setattr a upd"
  from extraction_update_normalized [OF assms(4)] obtain s nb ap nt where
    upd: "upd = [Set_normalized_address (Some (intercalate '', '' (normalized_parts s nb))),
                  Set_street_info s, Set_neighborhood nb,
                  Set_apartment_info ap, Set_notes nt, Set_status (Some NORMALIZED)]"
    and f: "bind (py_get p ''street_info'') validate_str = Returns s"
           "bind (py_get p ''neighborhood'') validate_str = Returns nb"
    by blast
  have a1: "street_info ?a1 = s" "neighborhood ?a1 = nb"
    "normalized_address ?a1 = Some (intercalate '', '' (normalized_parts s nb))"
    by (simp_all add: upd)
  have spec: "s \<noteq> Some [] \<and> nb \<noteq> Some [] \<longrightarrow>
      intercalate '', '' (normalized_parts s nb) = normalized_by_spec s nb"
    by (cases s; cases nb) (auto simp: normalized_parts_def normalized_by_spec_def)
  from run_success_cases [where db = db and i = address_id, OF dba assms(2,3,4,5,6)]
  consider "db' = db(address_id \<mapsto> ?a1)"
    | g upd2 where "geocoding_update g = Returns upd2"
        "db' = db(address_id \<mapsto> foldl setattr ?a1 (map column_value upd2))"
    by blast
  then show ?thesis
  proof cases
    case 1
    then show ?thesis using a1 f spec by simp
  next
    case 2
    from geocoding_keeps_extraction_fields [OF 2(1), of ?a1] 2(2)
    show ?thesis using a1 f spec by simp
  qed
qed

theorem normalized_address_joins_nonempty_parts_witness:
  "get_address example_db 7 = Some pending_row \<and>
   parse_address_with_ai example_lib no_match (original_address pending_row)
     = Returns street_only \<and>
   truthy street_only \<and>
   extraction_update street_only = Returns street_only_update \<and>
   commit_error street_only_update = None \<and>
   run_processing_pipeline example_lib no_match example_db 7
     = (Returns (), example_db(7 \<mapsto> normalized_row),
        [Extractor_called ''av. carrera 44B calle 13-16'', Committed 7 street_only_update,
         Geocoder_called (Some ''Carrera 44B # 13-16, Medellin, Colombia'')]) \<and>
   normalized_address normalized_row
     = Some (intercalate '', ''
         (normalized_parts (street_info normalized_row) (neighborhood normalized_row))) \<and>
   normalized_address normalized_row = Some ''Carrera 44B # 13-16, Medellin, Colombia''"
proof -
  from normalized_address_joins_nonempty_parts
    [OF example_db_row parse_street_only truthy_street_only extraction_update_street_only
        commit_street_only run_no_match]
  have "normalized_address normalized_row
     = Some (intercalate '', ''
         (normalized_parts (street_info normalized_row) (neighborhood normalized_row)))"
    by auto
  moreover have
    "normalized_address normalized_row = Some ''Carrera 44B # 13-16, Medellin, Colombia''"
    by (simp add: normalized_row_def)
  ultimately show ?thesis
    using example_db_row parse_street_only truthy_street_only extraction_update_street_only
      commit_street_only run_no_match
    by simp
qed

text \<open>
  C4 as stated fails: an empty string is skipped as a null is. With \<open>street_info = ""\<close>
  and \<open>neighborhood = "Laureles"\<close> the run persists \<open>"Laureles, Medellin, Colombia"\<close>,
  and the join of the non-null elements is \<open>", Laureles, Medellin, Colombia"\<close>.
\<close>

theorem empty_street_info_is_skipped:
  "run_processing_pipeline example_lib empty_street_run example_db 7
     = (Returns (), example_db(7 \<mapsto> laureles_row),
        [Extractor_called ''av. carrera 44B calle 13-16'', Committed 7 empty_street_update,
         Geocoder_called (Some ''Laureles, Medellin, Colombia'')]) \<and>
   street_info laureles_row = Some [] \<and>
   neighborhood laureles_row = Some ''Laureles'' \<and>
   normalized_address laureles_row = Some ''Laureles, Medellin, Colombia'' \<and>
   normalized_by_spec (street_info laureles_row) (neighborhood laureles_row)
     = '', Laureles, Medellin, Colombia'' \<and>
   normalized_address laureles_row
     \<noteq> Some (normalized_by_spec (street_info laureles_row) (neighborhood laureles_row))"
  by (simp add: run_processing_pipeline_def get_address_def example_db_def pending_row_def
      parse_address_with_ai_def example_lib_def street_only_document_def empty_street_run_def
      cleaned_response_def
      strip_def is_space_def replace.simps empty_street_def extraction_update_def py_get_def
      bind_def join_def update_address_def
      commit_error_def has_nul_def Let_def pipeline_geocoding_def geocode_address_def
      except_RequestException_def empty_street_update_def laureles_row_def
      empty_street_text_def all_null_text_def normalized_by_spec_def)




subsection \<open>The status over a history\<close>

text \<open>
  C1, as amended. Over every history of creations and pipeline runs, a stored record
  stays stored and its status either does not move backward on the line \<open>PENDING\<close>,
  \<open>NORMALIZED\<close>, \<open>VERIFIED\<close>, or moves from \<open>VERIFIED\<close> to \<open>NORMALIZED\<close>. So no run
  brings a record back to \<open>PENDING\<close>, and a record at \<open>PENDING\<close> or \<open>NORMALIZED\<close>
  moves forward only; a run is not guarded by the status, and on a record at \<open>VERIFIED\<close>
  a successful extraction writes \<open>NORMALIZED\<close>.
\<close>

theorem status_never_returns_to_pending:
  assumes "db i = Some a"
  shows "\<exists>a'. execute lib db ops i = Some a' \<and>
           (status_rank (status a) \<le> status_rank (status a')
              \<or> status a = VERIFIED \<and> status a' = NORMALIZED)"
  using assms
proof (induction ops arbitrary: db a)
  case Nil
  then show ?case by simp
next
  case (Cons op ops)
  show ?case
  proof (cases op)
    case (Create new_id original)
    from create_keeps_rows [where db = db and i = i, OF Cons.prems] Cons.IH show ?thesis
      using Create by simp
  next
    case (Run k env)
    obtain r db1 evs where run: "run_processing_pipeline lib env db k = (r, db1, evs)"
      by (cases "run_processing_pipeline lib env db k") auto
    from run_status_step [where db = db and i = i, OF run Cons.prems] obtain a1 where
      a1: "db1 i = Some a1"
        "status_rank (status a) \<le> status_rank (status a1)
           \<or> status a = VERIFIED \<and> status a1 = NORMALIZED"
      by blast
    from Cons.IH [of db1 a1, OF a1(1)] obtain a' where
      a': "execute lib db1 ops i = Some a'"
        "status_rank (status a1) \<le> status_rank (status a')
           \<or> status a1 = VERIFIED \<and> status a' = NORMALIZED"
      by blast
    have "status_rank (status a) \<le> status_rank (status a')
              \<or> status a = VERIFIED \<and> status a' = NORMALIZED"
      using a1(2) a'(2) by (cases "status a"; cases "status a1"; cases "status a'") auto
    with a'(1) show ?thesis using Run run by simp
  qed
qed



theorem status_never_returns_to_pending_witness:
  "example_db 7 = Some pending_row \<and>
   execute example_lib example_db [Run 7 all_null_found] 7 = Some verified_row \<and>
   status pending_row = PENDING \<and> status verified_row = VERIFIED \<and>
   status_rank (status pending_row) \<le> status_rank (status verified_row)"
proof -
  have h: "example_db 7 = Some pending_row" by (simp add: example_db_def)
  have e: "execute example_lib example_db [Run 7 all_null_found] 7 = Some verified_row"
    by (simp add: run_all_null_found)
  from status_never_returns_to_pending [where db = example_db and i = 7, OF h,
      of example_lib "[Run 7 all_null_found]"] e
  have "status_rank (status pending_row) \<le> status_rank (status verified_row)
          \<or> status pending_row = VERIFIED \<and> status verified_row = NORMALIZED"
    by simp
  then show ?thesis using h e by (simp add: pending_row_def verified_row_def)
qed

text \<open>
  C1 as stated fails: a second run on a record that the first run brought to
  \<open>VERIFIED\<close>, in which the extraction succeeds and the geocoder finds no match, leaves
  the record at \<open>NORMALIZED\<close>.
\<close>

theorem verified_record_reverts_to_normalized:
  "execute example_lib example_db [Run 7 all_null_found] 7 = Some verified_row \<and>
   status verified_row = VERIFIED \<and>
   run_processing_pipeline example_lib no_match (example_db(7 \<mapsto> verified_row)) 7
     = (Returns (), example_db(7 \<mapsto> reverted_row),
        [Extractor_called ''av. carrera 44B calle 13-16'', Committed 7 street_only_update,
         Geocoder_called (Some ''Carrera 44B # 13-16, Medellin, Colombia'')]) \<and>
   execute example_lib example_db [Run 7 all_null_found, Run 7 no_match] 7
     = Some reverted_row \<and>
   status reverted_row = NORMALIZED \<and>
   status_rank (status reverted_row) < status_rank (status verified_row)"
  by (simp add: run_all_null_found run_no_match_verified)
     (simp add: verified_row_def reverted_row_def)

subsection \<open>Coordinates\<close>

text \<open>
  C7. Every record of a store reached from the empty store by creations and pipeline
  runs has both coordinates or none, and has both when its status is \<open>VERIFIED\<close>; and
  every update that a run commits with the status \<open>VERIFIED\<close> sets \<open>latitude\<close> and
  \<open>longitude\<close>, both to a value, in that same update.
\<close>

theorem verified_has_both_coordinates:
  "(execute lib Map.empty ops i = Some a \<longrightarrow> coordinates_ok a) \<and>
   (Committed j upd \<in> set (snd (snd (run_processing_pipeline lib env db k)))
      \<and> Set_status (Some VERIFIED) \<in> set upd
    \<longrightarrow> (\<exists>la lo. Set_latitude (Some la) \<in> set upd \<and> Set_longitude (Some lo) \<in> set upd))"
proof -
  have inv: "\<forall>i a. execute lib Map.empty ops i = Some a \<longrightarrow> coordinates_ok a"
    by (rule execute_keeps_coordinates) simp
  obtain r db' evs where run: "run_processing_pipeline lib env db k = (r, db', evs)"
    by (cases "run_processing_pipeline lib env db k") auto
  then have "snd (snd (run_processing_pipeline lib env db k)) = evs" by simp
  with verified_commit_sets_both [OF run, of j upd] inv show ?thesis by auto
qed


theorem verified_has_both_coordinates_witness:
  "execute example_lib Map.empty
     [Create 7 ''av. carrera 44B calle 13-16'', Run 7 all_null_found] 7 = Some verified_row \<and>
   coordinates_ok verified_row \<and>
   status verified_row = VERIFIED \<and>
   latitude verified_row = Some (Finite 6.2443382) \<and>
   longitude verified_row = Some (Finite (- 75.573553)) \<and>
   Committed 7 medellin_update
     \<in> set (snd (snd (run_processing_pipeline example_lib all_null_found example_db 7))) \<and>
   Set_status (Some VERIFIED) \<in> set medellin_update \<and>
   (\<exists>la lo. Set_latitude (Some la) \<in> set medellin_update
      \<and> Set_longitude (Some lo) \<in> set medellin_update)"
proof -
  have e: "execute example_lib Map.empty
     [Create 7 ''av. carrera 44B calle 13-16'', Run 7 all_null_found] 7 = Some verified_row"
    by (simp add: create_example_db run_all_null_found)
  have c: "Committed 7 medellin_update
     \<in> set (snd (snd (run_processing_pipeline example_lib all_null_found example_db 7)))"
    by (simp add: run_all_null_found)
  have s: "Set_status (Some VERIFIED) \<in> set medellin_update"
    by (simp add: medellin_update_def)
  from verified_has_both_coordinates
    [where lib = example_lib
       and ops = "[Create 7 ''av. carrera 44B calle 13-16'', Run 7 all_null_found]"
       and i = 7 and a = verified_row and j = 7 and upd = medellin_update
       and env = all_null_found and db = example_db and k = 7]
    e c s
  have "coordinates_ok verified_row"
    "\<exists>la lo. Set_latitude (Some la) \<in> set medellin_update
      \<and> Set_longitude (Some lo) \<in> set medellin_update"
    by blast+
  then show ?thesis using e c s by (simp add: verified_row_def)
qed

subsection \<open>The order of the two steps\<close>

text \<open>
  C8. The store after a run is the store before it with the commits of the run applied
  in order. Wherever the geocoder is called in a run, the events before the call are
  exactly the call of the extractor, which returned a value taken for a success, and the
  commit of the first update; the store with that commit applied, which is what an
  interruption at that point leaves behind, holds the record with the status
  \<open>NORMALIZED\<close> and with the normalized address that the geocoder is called with. So
  the geocoder is never called in a run whose extraction failed.
\<close>

theorem extraction_committed_before_geocoding:
  assumes "run_processing_pipeline lib env db address_id = (r, db', evs)"
  shows "db' = replay db evs \<and>
         (\<forall>pre q post. evs = pre @ Geocoder_called q # post \<longrightarrow>
            (\<exists>a p upd a1. get_address db address_id = Some a
               \<and> parse_address_with_ai lib env (original_address a) = Returns p \<and> truthy p
               \<and> pre = [Extractor_called (original_address a), Committed address_id upd]
               \<and> replay db pre address_id = Some a1
               \<and> status a1 = NORMALIZED \<and> normalized_address a1 = q))"
proof -
  from run_outcomes [OF assms]
  consider "db' = db" "\<forall>q. Geocoder_called q \<notin> set evs" "\<forall>j upd. Committed j upd \<notin> set evs"
    | a p upd where "db address_id = Some a"
        "parse_address_with_ai lib env (original_address a) = Returns p" "truthy p"
        "extraction_update p = Returns upd"
        "db' = db(address_id \<mapsto> foldl setattr a upd)"
        "evs = [Extractor_called (original_address a), Committed address_id upd,
                Geocoder_called (normalized_address (foldl setattr a upd))]"
    | a p upd upd2 where "db address_id = Some a"
        "parse_address_with_ai lib env (original_address a) = Returns p" "truthy p"
        "extraction_update p = Returns upd"
        "db' = db(address_id \<mapsto> foldl setattr (foldl setattr a upd) upd2)"
        "evs = [Extractor_called (original_address a), Committed address_id upd,
                Geocoder_called (normalized_address (foldl setattr a upd)),
                Committed address_id upd2]"
    by blast
  then show ?thesis
  proof cases
    case 1
    then show ?thesis using replay_no_commit [OF 1(3), of db] by auto
  next
    case 2
    from extraction_update_form [OF 2(4)]
    have st: "status (foldl setattr a upd) = NORMALIZED" by auto
    have "db' = replay db evs" using 2 by simp
    moreover have "\<exists>a p upd a1. get_address db address_id = Some a
               \<and> parse_address_with_ai lib env (original_address a) = Returns p \<and> truthy p
               \<and> pre = [Extractor_called (original_address a), Committed address_id upd]
               \<and> replay db pre address_id = Some a1
               \<and> status a1 = NORMALIZED \<and> normalized_address a1 = q"
      if "evs = pre @ Geocoder_called q # post" for pre q post
    proof -
      from that 2(6) have "pre @ Geocoder_called q # post
          = Extractor_called (original_address a) # Committed address_id upd
              # Geocoder_called (normalized_address (foldl setattr a upd)) # []"
        by simp
      from split_at_geocoder_call [OF this]
      have "pre = [Extractor_called (original_address a), Committed address_id upd]"
        "q = normalized_address (foldl setattr a upd)"
        by simp_all
      with 2 st show ?thesis by (auto simp: get_address_def)
    qed
    ultimately show ?thesis by blast
  next
    case 3
    from extraction_update_form [OF 3(4)]
    have st: "status (foldl setattr a upd) = NORMALIZED" by auto
    have "db' = replay db evs" using 3 by simp
    moreover have "\<exists>a p upd a1. get_address db address_id = Some a
               \<and> parse_address_with_ai lib env (original_address a) = Returns p \<and> truthy p
               \<and> pre = [Extractor_called (original_address a), Committed address_id upd]
               \<and> replay db pre address_id = Some a1
               \<and> status a1 = NORMALIZED \<and> normalized_address a1 = q"
      if "evs = pre @ Geocoder_called q # post" for pre q post
    proof -
      from that 3(6) have "pre @ Geocoder_called q # post
          = Extractor_called (original_address a) # Committed address_id upd
              # Geocoder_called (normalized_address (foldl setattr a upd))
              # [Committed address_id upd2]"
        by simp
      from split_at_geocoder_call [OF this]
      have "pre = [Extractor_called (original_address a), Committed address_id upd]"
        "q = normalized_address (foldl setattr a upd)"
        by simp_all
      with 3 st show ?thesis by (auto simp: get_address_def)
    qed
    ultimately show ?thesis by blast
  qed
qed

theorem extraction_committed_before_geocoding_witness:
  "run_processing_pipeline example_lib no_match example_db 7
     = (Returns (), example_db(7 \<mapsto> normalized_row),
        [Extractor_called ''av. carrera 44B calle 13-16'', Committed 7 street_only_update,
         Geocoder_called (Some ''Carrera 44B # 13-16, Medellin, Colombia'')]) \<and>
   example_db(7 \<mapsto> normalized_row)
     = replay example_db
        [Extractor_called ''av. carrera 44B calle 13-16'', Committed 7 street_only_update,
         Geocoder_called (Some ''Carrera 44B # 13-16, Medellin, Colombia'')] \<and>
   (\<exists>a1. replay example_db
            [Extractor_called ''av. carrera 44B calle 13-16'', Committed 7 street_only_update]
            7 = Some a1
       \<and> status a1 = NORMALIZED
       \<and> normalized_address a1 = Some ''Carrera 44B # 13-16, Medellin, Colombia'')"
proof -
  let ?pre = "[Extractor_called ''av. carrera 44B calle 13-16'',
               Committed 7 street_only_update]"
  let ?q = "Some ''Carrera 44B # 13-16, Medellin, Colombia''"
  note t = extraction_committed_before_geocoding [OF run_no_match]
  have split: "[Extractor_called ''av. carrera 44B calle 13-16'',
      Committed 7 street_only_update, Geocoder_called ?q] = ?pre @ Geocoder_called ?q # []"
    by simp
  from t [THEN conjunct2, rule_format, OF split] obtain a1 where
    "replay example_db ?pre 7 = Some a1" "status a1 = NORMALIZED"
    "normalized_address a1 = ?q"
    by blast
  then have "\<exists>a1. replay example_db ?pre 7 = Some a1
       \<and> status a1 = NORMALIZED \<and> normalized_address a1 = ?q"
    by blast
  with t [THEN conjunct1] run_no_match show ?thesis by blast
qed

subsection \<open>The extractor\<close>

text \<open>
  C6, as amended. When the lookup of the model returns a false value the extractor
  returns the failure \<^verbatim>\<open>None\<close>. When the model is there, an exception of the class
  \<^verbatim>\<open>Exception\<close> raised by the generation call, by reading the text of the answer or by
  the JSON parser yields \<^verbatim>\<open>None\<close> too, and otherwise the extractor returns the value
  that the parser makes of the cleaned answer, whatever that value is: it is not checked
  to be an object with the four fields. The cleaned answer is the stripped text with
  every occurrence of \<^verbatim>\<open>```json\<close> and of \<^verbatim>\<open>```\<close> removed, stripped again; of a body
  without backquotes inside a \<^verbatim>\<open>```json\<close> fence, with white space around the fence,
  it is the stripped body, as it is of a body sent without a fence.
\<close>

theorem parse_address_with_ai_outcomes:
  "(get_model env = Returns False \<longrightarrow> parse_address_with_ai lib env address = Returns PNone)
   \<and> (get_model env = Returns True \<longrightarrow>
        (\<forall>e. generate_content env = Raises e \<and> is_Exception e
            \<longrightarrow> parse_address_with_ai lib env address = Returns PNone)
      \<and> (\<forall>text. generate_content env = Returns text \<longrightarrow>
            (json_loads lib (cleaned_response text) = None
               \<longrightarrow> parse_address_with_ai lib env address = Returns PNone)
          \<and> (\<forall>v. json_loads lib (cleaned_response text) = Some v
               \<longrightarrow> parse_address_with_ai lib env address = Returns v)))
   \<and> (CHR 0x60 \<notin> set body \<and> list_all is_space lead \<and> list_all is_space trail \<longrightarrow>
        cleaned_response (lead @ ''```json'' @ body @ ''```'' @ trail) = strip body
      \<and> cleaned_response body = strip body)"
  using cleaned_response_fenced [of body lead trail] cleaned_response_plain [of body]
  by (simp add: parse_address_with_ai_def)



theorem parse_address_with_ai_outcomes_witness:
  "get_model model_unavailable = Returns False \<and>
   parse_address_with_ai example_lib model_unavailable ''Cra72a#113-21'' = Returns PNone \<and>
   get_model extractor_down = Returns True \<and>
   generate_content extractor_down = Raises Timeout \<and> is_Exception Timeout \<and>
   parse_address_with_ai example_lib extractor_down ''Cra72a#113-21'' = Returns PNone \<and>
   get_model prose_answer = Returns True \<and>
   generate_content prose_answer = Returns ''No puedo analizar la direccion'' \<and>
   json_loads example_lib (cleaned_response ''No puedo analizar la direccion'') = None \<and>
   parse_address_with_ai example_lib prose_answer ''Cra72a#113-21'' = Returns PNone \<and>
   get_model no_match = Returns True \<and>
   generate_content no_match = Returns street_only_text \<and>
   json_loads example_lib (cleaned_response street_only_text) = Some street_only \<and>
   parse_address_with_ai example_lib no_match ''Cra72a#113-21'' = Returns street_only \<and>
   CHR 0x60 \<notin> set (CHR 0x0A # street_only_document @ [CHR 0x0A]) \<and>
   list_all is_space [] \<and>
   cleaned_response
     ([] @ ''```json'' @ (CHR 0x0A # street_only_document @ [CHR 0x0A]) @ ''```'' @ [])
     = strip (CHR 0x0A # street_only_document @ [CHR 0x0A])"
proof -
  have a: "get_model model_unavailable = Returns False"
    by (simp add: model_unavailable_def)
  have b: "get_model extractor_down = Returns True"
    "generate_content extractor_down = Raises Timeout" "is_Exception Timeout"
    by (simp_all add: extractor_down_def)
  have c: "get_model prose_answer = Returns True"
    "generate_content prose_answer = Returns ''No puedo analizar la direccion''"
    by (simp_all add: prose_answer_def)
  have "cleaned_response ''No puedo analizar la direccion'' = ''No puedo analizar la direccion''"
    using cleaned_response_plain [of "''No puedo analizar la direccion''"]
      strip_spaces_around [of "''No puedo analizar la direccion''" "[]" "[]"]
    by (simp add: is_space_def)
  then have c3: "json_loads example_lib (cleaned_response ''No puedo analizar la direccion'') = None"
    by (simp add: example_lib_def street_only_document_def all_null_text_def
        empty_street_text_def one_field_text_def number_street_text_def nul_street_text_def)
  have d: "get_model no_match = Returns True"
    "generate_content no_match = Returns street_only_text"
    by (simp_all add: no_match_def)
  have d3: "json_loads example_lib (cleaned_response street_only_text) = Some street_only"
    by (simp add: cleaned_street_only_text example_lib_def)
  have e: "CHR 0x60 \<notin> set (CHR 0x0A # street_only_document @ [CHR 0x0A])"
    by (simp add: street_only_document_def)
  note t = parse_address_with_ai_outcomes
  from t [of model_unavailable example_lib "''Cra72a#113-21''" "[]" "[]" "[]"] a
  have 1: "parse_address_with_ai example_lib model_unavailable ''Cra72a#113-21'' = Returns PNone"
    by blast
  from t [of extractor_down example_lib "''Cra72a#113-21''" "[]" "[]" "[]"] b
  have 2: "parse_address_with_ai example_lib extractor_down ''Cra72a#113-21'' = Returns PNone"
    by blast
  from t [of prose_answer example_lib "''Cra72a#113-21''" "[]" "[]" "[]"] c c3
  have 3: "parse_address_with_ai example_lib prose_answer ''Cra72a#113-21'' = Returns PNone"
    by blast
  from t [of no_match example_lib "''Cra72a#113-21''"
      "CHR 0x0A # street_only_document @ [CHR 0x0A]" "[]" "[]"] d d3 e
  have 4: "parse_address_with_ai example_lib no_match ''Cra72a#113-21'' = Returns street_only"
    and 5: "cleaned_response
     ([] @ ''```json'' @ (CHR 0x0A # street_only_document @ [CHR 0x0A]) @ ''```'' @ [])
     = strip (CHR 0x0A # street_only_document @ [CHR 0x0A])"
    by simp_all
  from a b c c3 d d3 e 1 2 3 4 5 show ?thesis by simp
qed


text \<open>
  C6 as stated fails. An answer with the single field \<open>street_info\<close> is returned as it
  is and the run persists it as a successful extraction; and an exception raised by the
  lookup of the model, which stands before the \<^verbatim>\<open>try\<close>, leaves the extractor and the run
  unhandled.
\<close>

theorem extractor_returns_unchecked_json:
  "parse_address_with_ai example_lib one_field_answer (original_address pending_row)
     = Returns one_field \<and>
   one_field = PDict [(''street_info'', PStr ''Calle 10'')] \<and>
   run_processing_pipeline example_lib one_field_answer example_db 7
     = (Returns (), example_db(7 \<mapsto> calle_row),
        [Extractor_called ''av. carrera 44B calle 13-16'', Committed 7 one_field_update,
         Geocoder_called (Some ''Calle 10, Medellin, Colombia'')]) \<and>
   parse_address_with_ai example_lib model_lookup_raises (original_address pending_row)
     = Raises ServiceError \<and>
   run_processing_pipeline example_lib model_lookup_raises example_db 7
     = (Raises ServiceError, example_db, [Extractor_called ''av. carrera 44B calle 13-16''])"
  by (simp add: run_processing_pipeline_def get_address_def example_db_def pending_row_def
      parse_address_with_ai_def example_lib_def street_only_document_def one_field_answer_def
      model_lookup_raises_def one_field_text_def all_null_text_def empty_street_text_def
      cleaned_response_def strip_def is_space_def replace.simps one_field_def
      extraction_update_def py_get_def bind_def join_def update_address_def
      commit_error_def has_nul_def Let_def
      pipeline_geocoding_def geocode_address_def except_RequestException_def
      one_field_update_def calle_row_def)

subsection \<open>The geocoder\<close>

text \<open>
  C5, as amended. The geocoder returns the failure \<^verbatim>\<open>None\<close> for a null or empty
  address, for every exception of the class \<^verbatim>\<open>RequestException\<close> (a transport error, a
  timeout, an error status) and for an empty result; no \<^verbatim>\<open>RequestException\<close> leaves
  it. When it returns a result, the answer was a non-empty array, \<open>latitude\<close> and
  \<open>longitude\<close> are both there, converted from \<open>lat\<close> and \<open>lon\<close> of the first match,
  and \<open>suggested_address\<close> and \<open>postal_code\<close> are what \<^verbatim>\<open>get\<close> finds under
  \<open>display_name\<close> and \<open>address.postcode\<close>, \<^verbatim>\<open>None\<close> when the key is absent. After
  the failure \<^verbatim>\<open>None\<close> the run commits nothing, so the coordinates stay as they were.
\<close>

theorem geocode_address_outcomes:
  "(address = None \<or> address = Some [] \<longrightarrow> geocode_address lib env address = Returns None)
   \<and> (\<forall>e. http_get env = Raises e \<and> is_RequestException e
         \<longrightarrow> geocode_address lib env address = Returns None)
   \<and> (\<forall>data. http_get env = Returns data \<and> \<not> truthy data
         \<longrightarrow> geocode_address lib env address = Returns None)
   \<and> (\<forall>g. geocode_address lib env address = Returns (Some g) \<longrightarrow>
         (\<exists>result rest. http_get env = Returns (PList (result # rest))
            \<and> bind (py_get result ''lat'') (py_float lib) = Returns (geo_latitude g)
            \<and> bind (py_get result ''lon'') (py_float lib) = Returns (geo_longitude g)
            \<and> py_get result ''display_name'' = Returns (geo_suggested_address g)
            \<and> bind (py_get_default result ''address'' (PDict []))
                 (\<lambda>addr. py_get addr ''postcode'') = Returns (geo_postal_code g)))
   \<and> (\<forall>e. geocode_address lib env address = Raises e \<longrightarrow> \<not> is_RequestException e)
   \<and> (geocode_address lib env (normalized_address a1) = Returns None \<longrightarrow>
         pipeline_geocoding lib env db i a1 evs
           = (Returns (), db, evs @ [Geocoder_called (normalized_address a1)]))"
proof (intro conjI allI impI)
  assume "address = None \<or> address = Some []"
  then show "geocode_address lib env address = Returns None"
    by (auto simp: geocode_address_def)
next
  fix e assume "http_get env = Raises e \<and> is_RequestException e"
  then show "geocode_address lib env address = Returns None"
    by (simp add: geocode_address_def except_RequestException_def bind_def)
next
  fix data assume "http_get env = Returns data \<and> \<not> truthy data"
  then show "geocode_address lib env address = Returns None"
    by (simp add: geocode_address_def except_RequestException_def bind_def)
next
  fix g assume "geocode_address lib env address = Returns (Some g)"
  then show "\<exists>result rest. http_get env = Returns (PList (result # rest))
            \<and> bind (py_get result ''lat'') (py_float lib) = Returns (geo_latitude g)
            \<and> bind (py_get result ''lon'') (py_float lib) = Returns (geo_longitude g)
            \<and> py_get result ''display_name'' = Returns (geo_suggested_address g)
            \<and> bind (py_get_default result ''address'' (PDict []))
                 (\<lambda>addr. py_get addr ''postcode'') = Returns (geo_postal_code g)"
    by (rule geocode_address_success)
next
  fix e assume "geocode_address lib env address = Raises e"
  then show "\<not> is_RequestException e"
    by (auto simp: geocode_address_def except_RequestException_Raises split: if_splits)
next
  assume "geocode_address lib env (normalized_address a1) = Returns None"
  then show "pipeline_geocoding lib env db i a1 evs
           = (Returns (), db, evs @ [Geocoder_called (normalized_address a1)])"
    by (simp add: pipeline_geocoding_def Let_def)
qed

theorem geocode_address_outcomes_witness:
  "geocode_address example_lib no_match None = Returns None \<and>
   http_get geocoder_timeout = Raises Timeout \<and> is_RequestException Timeout \<and>
   geocode_address example_lib geocoder_timeout (Some ''Medellin, Colombia'')
     = Returns None \<and>
   http_get no_match = Returns (PList []) \<and> \<not> truthy (PList []) \<and>
   geocode_address example_lib no_match (Some ''Medellin, Colombia'') = Returns None \<and>
   geocode_address example_lib all_null_found (Some ''Medellin, Colombia'')
     = Returns (Some medellin_geo) \<and>
   http_get all_null_found = Returns (PList [medellin_match]) \<and>
   bind (py_get medellin_match ''lat'') (py_float example_lib)
     = Returns (geo_latitude medellin_geo) \<and>
   bind (py_get medellin_match ''lon'') (py_float example_lib)
     = Returns (geo_longitude medellin_geo) \<and>
   geocode_address example_lib match_without_lat (Some ''Medellin, Colombia'')
     = Raises TypeError \<and>
   \<not> is_RequestException TypeError \<and>
   geocode_address example_lib no_match (normalized_address normalized_row)
     = Returns None \<and>
   pipeline_geocoding example_lib no_match example_db 7 normalized_row []
     = (Returns (), example_db, [] @ [Geocoder_called (normalized_address normalized_row)])"
proof -
  let ?q = "Some ''Medellin, Colombia''"
  note t = geocode_address_outcomes
  have a: "http_get geocoder_timeout = Raises Timeout" "is_RequestException Timeout"
    by (simp_all add: geocoder_timeout_def)
  have b: "http_get no_match = Returns (PList [])" "\<not> truthy (PList [])"
    by (simp_all add: no_match_def)
  have c: "geocode_address example_lib all_null_found ?q = Returns (Some medellin_geo)"
    by (simp add: geocode_address_def all_null_found_def medellin_match_def medellin_geo_def
        except_RequestException_def bind_def py_get_def example_lib_def)
  have d: "geocode_address example_lib match_without_lat ?q = Raises TypeError"
    by (simp add: geocode_address_def match_without_lat_def except_RequestException_def
        bind_def py_get_def)
  from t [where address = None and lib = example_lib and env = no_match]
  have 1: "geocode_address example_lib no_match None = Returns None" by blast
  from t [where address = ?q and lib = example_lib and env = geocoder_timeout] a
  have 2: "geocode_address example_lib geocoder_timeout ?q = Returns None" by blast
  from t [where address = ?q and lib = example_lib and env = no_match] b
  have 3: "geocode_address example_lib no_match ?q = Returns None" by blast
  from t [where address = ?q and lib = example_lib and env = all_null_found] c
  obtain result rest where
    r: "http_get all_null_found = Returns (PList (result # rest))"
      "bind (py_get result ''lat'') (py_float example_lib)
         = Returns (geo_latitude medellin_geo)"
      "bind (py_get result ''lon'') (py_float example_lib)
         = Returns (geo_longitude medellin_geo)"
    by blast
  from r(1) have "result = medellin_match" "rest = []"
    by (simp_all add: all_null_found_def)
  with r have 4: "http_get all_null_found = Returns (PList [medellin_match])"
    "bind (py_get medellin_match ''lat'') (py_float example_lib)
       = Returns (geo_latitude medellin_geo)"
    "bind (py_get medellin_match ''lon'') (py_float example_lib)
       = Returns (geo_longitude medellin_geo)"
    by simp_all
  from t [where address = ?q and lib = example_lib and env = match_without_lat] d
  have 5: "\<not> is_RequestException TypeError" by blast
  from t [where lib = example_lib and env = no_match and ?a1.0 = normalized_row
      and db = example_db and i = 7 and evs = "[]"] geocode_no_match
  have 6: "pipeline_geocoding example_lib no_match example_db 7 normalized_row []
     = (Returns (), example_db, [] @ [Geocoder_called (normalized_address normalized_row)])"
    by blast
  from a b c d 1 2 3 4 5 6 geocode_no_match show ?thesis by simp
qed

text \<open>
  C5 as stated fails. For a match with \<open>lat\<close> and \<open>lon\<close> and no \<open>display_name\<close> the
  geocoder returns both coordinates with a null \<open>suggested_address\<close>; and for a match
  without \<open>lat\<close> the conversion \<^verbatim>\<open>float(None)\<close> raises \<^verbatim>\<open>TypeError\<close>, which is not a
  \<^verbatim>\<open>RequestException\<close> and leaves the geocoder unhandled.
\<close>

theorem geocode_address_partial_or_unhandled:
  "geocode_address example_lib match_without_name (Some ''Medellin, Colombia'')
     = Returns (Some \<lparr>geo_latitude = Finite 6.2443382, geo_longitude = Finite (- 75.573553),
                      geo_suggested_address = PNone, geo_postal_code = PNone\<rparr>) \<and>
   geocode_address example_lib match_without_lat (Some ''Medellin, Colombia'')
     = Raises TypeError"
  by (simp add: geocode_address_def match_without_name_def match_without_lat_def
      except_RequestException_def bind_def py_get_def example_lib_def)

end
